theory Spec2Isabelle
  imports Complex_Main "HOL-Library.Monad_Syntax"
begin

text \<open>
  A model of the restaurant ordering application: the five tables of the migration with
  their constraints, cascades and row-level security policies, every write the backend
  accepts from a client, and the client handlers that build the cart, place an order and
  edit the menu. The properties proved are about access (who may read or update a row),
  about order placement (what it writes, and what a failure in the middle leaves behind),
  about the cart, and about what sequences of requests can and cannot change.
\<close>

section \<open>Rows of the five tables\<close>

text \<open>
  The schema of the migration: one record per table. A column declared \<open>NOT NULL\<close> (or
  \<open>PRIMARY KEY\<close>) has a plain type, a nullable column an \<open>option\<close> type (\<open>None\<close> is SQL's
  \<open>NULL\<close>). \<open>uuid\<close> and \<open>text\<close> are strings, \<open>numeric\<close> is a rational, \<open>integer\<close> an
  integer. The columns \<open>created_at\<close> and \<open>updated_at\<close> are left out: no constraint, policy
  or client write mentions them. Field names carry the table's initial because the five
  tables share column names.
\<close>

type_synonym uuid = string

record profile_row =
  p_id :: uuid
  p_email :: string
  p_full_name :: string
  p_user_type :: string

record restaurant_row =
  r_id :: uuid
  r_seller_id :: uuid
  r_name :: string
  r_description :: "string option"
  r_address :: "string option"
  r_phone :: "string option"
  r_image_url :: "string option"
  r_is_active :: "bool option"

record dish_row =
  d_id :: uuid
  d_restaurant_id :: uuid
  d_name :: string
  d_description :: "string option"
  d_price :: rat
  d_image_url :: "string option"
  d_category :: "string option"
  d_is_available :: "bool option"

record order_row =
  o_id :: uuid
  o_customer_id :: uuid
  o_restaurant_id :: uuid
  o_total_amount :: rat
  o_status :: string
  o_delivery_address :: string
  o_notes :: "string option"

record order_item_row =
  oi_id :: uuid
  oi_order_id :: uuid
  oi_dish_id :: uuid
  oi_quantity :: int
  oi_price :: rat

section \<open>The customer's cart (CustomerDashboard.tsx)\<close>

text \<open>
  A cart entry is the object \<open>{ dish, restaurant, quantity }\<close>; the cart is the React state
  \<open>cartItems\<close>, passed in and returned.
\<close>

record cart_item =
  dish :: dish_row
  restaurant :: restaurant_row
  quantity :: int

definition addToCart :: "cart_item list \<Rightarrow> dish_row \<Rightarrow> restaurant_row \<Rightarrow> cart_item list" where
  "addToCart cartItems d r =
     (case find (\<lambda>item. d_id (dish item) = d_id d) cartItems of
        Some existingItem \<Rightarrow>
          map (\<lambda>item. if d_id (dish item) = d_id d
                       then item\<lparr>quantity := quantity item + 1\<rparr> else item) cartItems
      | None \<Rightarrow> cartItems @ [\<lparr>dish = d, restaurant = r, quantity = 1\<rparr>])"

definition updateCartItem :: "cart_item list \<Rightarrow> uuid \<Rightarrow> int \<Rightarrow> cart_item list" where
  "updateCartItem cartItems dishId q =
     (if q = 0 then filter (\<lambda>item. d_id (dish item) \<noteq> dishId) cartItems
      else map (\<lambda>item. if d_id (dish item) = dishId then item\<lparr>quantity := q\<rparr> else item)
             cartItems)"

definition clearCart :: "cart_item list \<Rightarrow> cart_item list" where
  "clearCart cartItems = []"

text \<open>The two handlers the cart screens call, as actions, and a run of them.\<close>

datatype cart_action = AddToCart dish_row restaurant_row | UpdateCartItem uuid int

fun cart_step :: "cart_item list \<Rightarrow> cart_action \<Rightarrow> cart_item list" where
  "cart_step cartItems (AddToCart d r) = addToCart cartItems d r"
| "cart_step cartItems (UpdateCartItem dishId q) = updateCartItem cartItems dishId q"

definition cart_run :: "cart_action list \<Rightarrow> cart_item list" where
  "cart_run acts = foldl cart_step [] acts"

definition dish_ids :: "cart_item list \<Rightarrow> uuid list" where
  "dish_ids cartItems = map (\<lambda>item. d_id (dish item)) cartItems"

definition quantity_of :: "cart_item list \<Rightarrow> uuid \<Rightarrow> int option" where
  "quantity_of cartItems dishId =
     map_option quantity (find (\<lambda>item. d_id (dish item) = dishId) cartItems)"

section \<open>The backend: tables, callers and row-level security\<close>

record db =
  profiles :: "profile_row list"
  restaurants :: "restaurant_row list"
  dishes :: "dish_row list"
  orders :: "order_row list"
  order_items :: "order_item_row list"

text \<open>
  A request reaches the backend either with a session (\<open>auth.uid()\<close> is the user's id) or
  without one (\<open>auth.uid()\<close> is \<open>NULL\<close>). A comparison with \<open>NULL\<close> is never true, so
  \<open>x = auth.uid()\<close> is written \<open>auth_uid c = Some x\<close>.
\<close>

datatype caller = Anon | Authenticated uuid

fun auth_uid :: "caller \<Rightarrow> uuid option" where
  "auth_uid Anon = None"
| "auth_uid (Authenticated u) = Some u"

fun is_authenticated :: "caller \<Rightarrow> bool" where
  "is_authenticated Anon = False"
| "is_authenticated (Authenticated u) = True"

datatype command = SELECT | INSERT | UPDATE | DELETE

text \<open>
  \<open>CREATE POLICY name ON table FOR command TO authenticated USING (...) WITH CHECK (...)\<close>.
  Both expressions may read other tables, so they take the database. Every policy of the
  migration is \<open>TO authenticated\<close>.
\<close>

record 'row policy =
  pol_name :: string
  pol_cmd :: command
  pol_using :: "(db \<Rightarrow> caller \<Rightarrow> 'row \<Rightarrow> bool) option"
  pol_check :: "(db \<Rightarrow> caller \<Rightarrow> 'row \<Rightarrow> bool) option"

text \<open>
  With row-level security enabled, the policies of one command are permissive: a row passes
  when one of them accepts it, and no row passes when the command has no policy. An
  \<open>UPDATE\<close> policy without \<open>WITH CHECK\<close> checks the new row with its \<open>USING\<close> expression.
\<close>

definition using_ok :: "'row policy list \<Rightarrow> command \<Rightarrow> db \<Rightarrow> caller \<Rightarrow> 'row \<Rightarrow> bool" where
  "using_ok pols cmd d c row =
     (is_authenticated c \<and>
      list_ex (\<lambda>p. pol_cmd p = cmd \<and>
                   (case pol_using p of Some f \<Rightarrow> f d c row | None \<Rightarrow> True)) pols)"

definition check_ok :: "'row policy list \<Rightarrow> command \<Rightarrow> db \<Rightarrow> caller \<Rightarrow> 'row \<Rightarrow> bool" where
  "check_ok pols cmd d c row =
     (is_authenticated c \<and>
      list_ex (\<lambda>p. pol_cmd p = cmd \<and>
                   (case pol_check p of
                      Some f \<Rightarrow> f d c row
                    | None \<Rightarrow> (case pol_using p of Some g \<Rightarrow> g d c row | None \<Rightarrow> True))) pols)"

subsection \<open>profiles\<close>

definition profiles_policies :: "profile_row policy list" where
  "profiles_policies =
     [\<lparr>pol_name = ''Users can view own profile'', pol_cmd = SELECT,
       pol_using = Some (\<lambda>d c row. auth_uid c = Some (p_id row)),
       pol_check = None\<rparr>,
      \<lparr>pol_name = ''Users can update own profile'', pol_cmd = UPDATE,
       pol_using = Some (\<lambda>d c row. auth_uid c = Some (p_id row)),
       pol_check = Some (\<lambda>d c row. auth_uid c = Some (p_id row))\<rparr>,
      \<lparr>pol_name = ''Users can insert own profile'', pol_cmd = INSERT,
       pol_using = None,
       pol_check = Some (\<lambda>d c row. auth_uid c = Some (p_id row))\<rparr>]"

text \<open>
  A subquery inside a policy runs as the caller, so it sees the rows of the other table
  that the caller may select.
\<close>

definition visible_profiles :: "db \<Rightarrow> caller \<Rightarrow> profile_row list" where
  "visible_profiles d c = filter (using_ok profiles_policies SELECT d c) (profiles d)"

subsection \<open>restaurants\<close>

definition restaurants_policies :: "restaurant_row policy list" where
  "restaurants_policies =
     [\<lparr>pol_name = ''Anyone can view active restaurants'', pol_cmd = SELECT,
       pol_using = Some (\<lambda>d c row. r_is_active row = Some True),
       pol_check = None\<rparr>,
      \<lparr>pol_name = ''Sellers can view own restaurants'', pol_cmd = SELECT,
       pol_using = Some (\<lambda>d c row. auth_uid c = Some (r_seller_id row)),
       pol_check = None\<rparr>,
      \<lparr>pol_name = ''Sellers can insert own restaurants'', pol_cmd = INSERT,
       pol_using = None,
       pol_check = Some (\<lambda>d c row. auth_uid c = Some (r_seller_id row) \<and>
          list_ex (\<lambda>p. auth_uid c = Some (p_id p) \<and> p_user_type p = ''seller'')
            (visible_profiles d c))\<rparr>,
      \<lparr>pol_name = ''Sellers can update own restaurants'', pol_cmd = UPDATE,
       pol_using = Some (\<lambda>d c row. auth_uid c = Some (r_seller_id row)),
       pol_check = Some (\<lambda>d c row. auth_uid c = Some (r_seller_id row))\<rparr>,
      \<lparr>pol_name = ''Sellers can delete own restaurants'', pol_cmd = DELETE,
       pol_using = Some (\<lambda>d c row. auth_uid c = Some (r_seller_id row)),
       pol_check = None\<rparr>]"

definition visible_restaurants :: "db \<Rightarrow> caller \<Rightarrow> restaurant_row list" where
  "visible_restaurants d c = filter (using_ok restaurants_policies SELECT d c) (restaurants d)"

subsection \<open>dishes\<close>

text \<open>
  \<open>EXISTS (SELECT 1 FROM restaurants WHERE restaurants.id = dishes.restaurant_id AND
  restaurants.seller_id = auth.uid())\<close>, which five policies of \<open>dishes\<close> and three of
  \<open>orders\<close> share.
\<close>

definition owns_restaurant :: "db \<Rightarrow> caller \<Rightarrow> uuid \<Rightarrow> bool" where
  "owns_restaurant d c restaurant_id =
     list_ex (\<lambda>r. r_id r = restaurant_id \<and> auth_uid c = Some (r_seller_id r))
       (visible_restaurants d c)"

definition dishes_policies :: "dish_row policy list" where
  "dishes_policies =
     [\<lparr>pol_name = ''Anyone can view available dishes'', pol_cmd = SELECT,
       pol_using = Some (\<lambda>d c row. d_is_available row = Some True \<and>
          list_ex (\<lambda>r. r_id r = d_restaurant_id row \<and> r_is_active r = Some True)
            (visible_restaurants d c)),
       pol_check = None\<rparr>,
      \<lparr>pol_name = ''Sellers can view own dishes'', pol_cmd = SELECT,
       pol_using = Some (\<lambda>d c row. owns_restaurant d c (d_restaurant_id row)),
       pol_check = None\<rparr>,
      \<lparr>pol_name = ''Sellers can insert dishes to own restaurants'', pol_cmd = INSERT,
       pol_using = None,
       pol_check = Some (\<lambda>d c row. owns_restaurant d c (d_restaurant_id row))\<rparr>,
      \<lparr>pol_name = ''Sellers can update own dishes'', pol_cmd = UPDATE,
       pol_using = Some (\<lambda>d c row. owns_restaurant d c (d_restaurant_id row)),
       pol_check = Some (\<lambda>d c row. owns_restaurant d c (d_restaurant_id row))\<rparr>,
      \<lparr>pol_name = ''Sellers can delete own dishes'', pol_cmd = DELETE,
       pol_using = Some (\<lambda>d c row. owns_restaurant d c (d_restaurant_id row)),
       pol_check = None\<rparr>]"

subsection \<open>orders\<close>

definition orders_policies :: "order_row policy list" where
  "orders_policies =
     [\<lparr>pol_name = ''Customers can view own orders'', pol_cmd = SELECT,
       pol_using = Some (\<lambda>d c row. auth_uid c = Some (o_customer_id row)),
       pol_check = None\<rparr>,
      \<lparr>pol_name = ''Sellers can view orders for their restaurants'', pol_cmd = SELECT,
       pol_using = Some (\<lambda>d c row. owns_restaurant d c (o_restaurant_id row)),
       pol_check = None\<rparr>,
      \<lparr>pol_name = ''Customers can insert own orders'', pol_cmd = INSERT,
       pol_using = None,
       pol_check = Some (\<lambda>d c row. auth_uid c = Some (o_customer_id row) \<and>
          list_ex (\<lambda>p. auth_uid c = Some (p_id p) \<and> p_user_type p = ''customer'')
            (visible_profiles d c))\<rparr>,
      \<lparr>pol_name = ''Customers can update own orders'', pol_cmd = UPDATE,
       pol_using = Some (\<lambda>d c row. auth_uid c = Some (o_customer_id row)),
       pol_check = Some (\<lambda>d c row. auth_uid c = Some (o_customer_id row))\<rparr>,
      \<lparr>pol_name = ''Sellers can update orders for their restaurants'', pol_cmd = UPDATE,
       pol_using = Some (\<lambda>d c row. owns_restaurant d c (o_restaurant_id row)),
       pol_check = Some (\<lambda>d c row. owns_restaurant d c (o_restaurant_id row))\<rparr>]"

definition visible_orders :: "db \<Rightarrow> caller \<Rightarrow> order_row list" where
  "visible_orders d c = filter (using_ok orders_policies SELECT d c) (orders d)"

subsection \<open>order_items\<close>

definition order_items_policies :: "order_item_row policy list" where
  "order_items_policies =
     [\<lparr>pol_name = ''Customers can view own order items'', pol_cmd = SELECT,
       pol_using = Some (\<lambda>d c row.
          list_ex (\<lambda>ord. o_id ord = oi_order_id row \<and> auth_uid c = Some (o_customer_id ord))
            (visible_orders d c)),
       pol_check = None\<rparr>,
      \<lparr>pol_name = ''Sellers can view order items for their restaurants'', pol_cmd = SELECT,
       pol_using = Some (\<lambda>d c row.
          list_ex (\<lambda>ord. o_id ord = oi_order_id row \<and>
                     list_ex (\<lambda>r. r_id r = o_restaurant_id ord \<and>
                                   auth_uid c = Some (r_seller_id r))
                       (visible_restaurants d c))
            (visible_orders d c)),
       pol_check = None\<rparr>,
      \<lparr>pol_name = ''Customers can insert own order items'', pol_cmd = INSERT,
       pol_using = None,
       pol_check = Some (\<lambda>d c row.
          list_ex (\<lambda>ord. o_id ord = oi_order_id row \<and> auth_uid c = Some (o_customer_id ord))
            (visible_orders d c))\<rparr>]"

section \<open>Write requests\<close>

text \<open>
  The body of an insert or update names some columns. A key that is missing (or whose
  value is \<open>undefined\<close>, which \<open>JSON.stringify\<close> drops) is \<open>Absent\<close>; \<open>null\<close> is \<open>Null\<close>.
\<close>

datatype 'a field = Absent | Null | Given 'a

record profile_payload =
  pp_id :: "uuid field"
  pp_email :: "string field"
  pp_full_name :: "string field"
  pp_user_type :: "string field"

record restaurant_payload =
  rp_id :: "uuid field"
  rp_seller_id :: "uuid field"
  rp_name :: "string field"
  rp_description :: "string field"
  rp_address :: "string field"
  rp_phone :: "string field"
  rp_image_url :: "string field"
  rp_is_active :: "bool field"

record dish_payload =
  dp_id :: "uuid field"
  dp_restaurant_id :: "uuid field"
  dp_name :: "string field"
  dp_description :: "string field"
  dp_price :: "rat field"
  dp_image_url :: "string field"
  dp_category :: "string field"
  dp_is_available :: "bool field"

record order_payload =
  op_id :: "uuid field"
  op_customer_id :: "uuid field"
  op_restaurant_id :: "uuid field"
  op_total_amount :: "rat field"
  op_status :: "string field"
  op_delivery_address :: "string field"
  op_notes :: "string field"

record order_item_payload =
  oip_id :: "uuid field"
  oip_order_id :: "uuid field"
  oip_dish_id :: "uuid field"
  oip_quantity :: "int field"
  oip_price :: "rat field"

text \<open>
  The value a column gets. \<open>not_null dflt f\<close> is a \<open>NOT NULL\<close> column: \<open>dflt\<close> is its
  \<open>DEFAULT\<close> on insert (\<open>None\<close> when it has none) and its old value on update; the result
  \<open>None\<close> is a not-null violation. \<open>nullable dflt f\<close> is a nullable column, whose result
  \<open>None\<close> is the stored \<open>NULL\<close>.
\<close>

fun not_null :: "'a option \<Rightarrow> 'a field \<Rightarrow> 'a option" where
  "not_null dflt Absent = dflt"
| "not_null dflt Null = None"
| "not_null dflt (Given v) = Some v"

fun nullable :: "'a option \<Rightarrow> 'a field \<Rightarrow> 'a option" where
  "nullable dflt Absent = dflt"
| "nullable dflt Null = None"
| "nullable dflt (Given v) = Some v"

datatype db_error =
  NotNullViolation | CheckViolation | UniqueViolation | ForeignKeyViolation | RlsViolation

subsection \<open>The row an insert proposes\<close>

text \<open>\<open>gen\<close> is the value \<open>gen_random_uuid()\<close> returns for this row.\<close>

definition new_profile :: "profile_payload \<Rightarrow> profile_row option" where
  "new_profile p = do {
     i \<leftarrow> not_null None (pp_id p);
     e \<leftarrow> not_null None (pp_email p);
     n \<leftarrow> not_null None (pp_full_name p);
     t \<leftarrow> not_null None (pp_user_type p);
     Some \<lparr>p_id = i, p_email = e, p_full_name = n, p_user_type = t\<rparr> }"

definition new_restaurant :: "uuid \<Rightarrow> restaurant_payload \<Rightarrow> restaurant_row option" where
  "new_restaurant gen p = do {
     i \<leftarrow> not_null (Some gen) (rp_id p);
     s \<leftarrow> not_null None (rp_seller_id p);
     n \<leftarrow> not_null None (rp_name p);
     Some \<lparr>r_id = i, r_seller_id = s, r_name = n,
           r_description = nullable (Some []) (rp_description p),
           r_address = nullable (Some []) (rp_address p),
           r_phone = nullable (Some []) (rp_phone p),
           r_image_url = nullable (Some []) (rp_image_url p),
           r_is_active = nullable (Some True) (rp_is_active p)\<rparr> }"

definition new_dish :: "uuid \<Rightarrow> dish_payload \<Rightarrow> dish_row option" where
  "new_dish gen p = do {
     i \<leftarrow> not_null (Some gen) (dp_id p);
     r \<leftarrow> not_null None (dp_restaurant_id p);
     n \<leftarrow> not_null None (dp_name p);
     pr \<leftarrow> not_null None (dp_price p);
     Some \<lparr>d_id = i, d_restaurant_id = r, d_name = n,
           d_description = nullable (Some []) (dp_description p),
           d_price = pr,
           d_image_url = nullable (Some []) (dp_image_url p),
           d_category = nullable (Some ''Other'') (dp_category p),
           d_is_available = nullable (Some True) (dp_is_available p)\<rparr> }"

definition new_order :: "uuid \<Rightarrow> order_payload \<Rightarrow> order_row option" where
  "new_order gen p = do {
     i \<leftarrow> not_null (Some gen) (op_id p);
     cu \<leftarrow> not_null None (op_customer_id p);
     r \<leftarrow> not_null None (op_restaurant_id p);
     t \<leftarrow> not_null (Some 0) (op_total_amount p);
     s \<leftarrow> not_null (Some ''pending'') (op_status p);
     a \<leftarrow> not_null None (op_delivery_address p);
     Some \<lparr>o_id = i, o_customer_id = cu, o_restaurant_id = r, o_total_amount = t,
           o_status = s, o_delivery_address = a,
           o_notes = nullable (Some []) (op_notes p)\<rparr> }"

definition new_order_item :: "uuid \<Rightarrow> order_item_payload \<Rightarrow> order_item_row option" where
  "new_order_item gen p = do {
     i \<leftarrow> not_null (Some gen) (oip_id p);
     ordr \<leftarrow> not_null None (oip_order_id p);
     di \<leftarrow> not_null None (oip_dish_id p);
     q \<leftarrow> not_null (Some 1) (oip_quantity p);
     pr \<leftarrow> not_null None (oip_price p);
     Some \<lparr>oi_id = i, oi_order_id = ordr, oi_dish_id = di, oi_quantity = q, oi_price = pr\<rparr> }"

subsection \<open>The row an update produces\<close>

definition set_profile :: "profile_payload \<Rightarrow> profile_row \<Rightarrow> profile_row option" where
  "set_profile p row = do {
     i \<leftarrow> not_null (Some (p_id row)) (pp_id p);
     e \<leftarrow> not_null (Some (p_email row)) (pp_email p);
     n \<leftarrow> not_null (Some (p_full_name row)) (pp_full_name p);
     t \<leftarrow> not_null (Some (p_user_type row)) (pp_user_type p);
     Some \<lparr>p_id = i, p_email = e, p_full_name = n, p_user_type = t\<rparr> }"

definition set_restaurant :: "restaurant_payload \<Rightarrow> restaurant_row \<Rightarrow> restaurant_row option" where
  "set_restaurant p row = do {
     i \<leftarrow> not_null (Some (r_id row)) (rp_id p);
     s \<leftarrow> not_null (Some (r_seller_id row)) (rp_seller_id p);
     n \<leftarrow> not_null (Some (r_name row)) (rp_name p);
     Some \<lparr>r_id = i, r_seller_id = s, r_name = n,
           r_description = nullable (r_description row) (rp_description p),
           r_address = nullable (r_address row) (rp_address p),
           r_phone = nullable (r_phone row) (rp_phone p),
           r_image_url = nullable (r_image_url row) (rp_image_url p),
           r_is_active = nullable (r_is_active row) (rp_is_active p)\<rparr> }"

definition set_dish :: "dish_payload \<Rightarrow> dish_row \<Rightarrow> dish_row option" where
  "set_dish p row = do {
     i \<leftarrow> not_null (Some (d_id row)) (dp_id p);
     r \<leftarrow> not_null (Some (d_restaurant_id row)) (dp_restaurant_id p);
     n \<leftarrow> not_null (Some (d_name row)) (dp_name p);
     pr \<leftarrow> not_null (Some (d_price row)) (dp_price p);
     Some \<lparr>d_id = i, d_restaurant_id = r, d_name = n,
           d_description = nullable (d_description row) (dp_description p),
           d_price = pr,
           d_image_url = nullable (d_image_url row) (dp_image_url p),
           d_category = nullable (d_category row) (dp_category p),
           d_is_available = nullable (d_is_available row) (dp_is_available p)\<rparr> }"

definition set_order :: "order_payload \<Rightarrow> order_row \<Rightarrow> order_row option" where
  "set_order p row = do {
     i \<leftarrow> not_null (Some (o_id row)) (op_id p);
     cu \<leftarrow> not_null (Some (o_customer_id row)) (op_customer_id p);
     r \<leftarrow> not_null (Some (o_restaurant_id row)) (op_restaurant_id p);
     t \<leftarrow> not_null (Some (o_total_amount row)) (op_total_amount p);
     s \<leftarrow> not_null (Some (o_status row)) (op_status p);
     a \<leftarrow> not_null (Some (o_delivery_address row)) (op_delivery_address p);
     Some \<lparr>o_id = i, o_customer_id = cu, o_restaurant_id = r, o_total_amount = t,
           o_status = s, o_delivery_address = a,
           o_notes = nullable (o_notes row) (op_notes p)\<rparr> }"

definition set_order_item :: "order_item_payload \<Rightarrow> order_item_row \<Rightarrow> order_item_row option" where
  "set_order_item p row = do {
     i \<leftarrow> not_null (Some (oi_id row)) (oip_id p);
     ordr \<leftarrow> not_null (Some (oi_order_id row)) (oip_order_id p);
     di \<leftarrow> not_null (Some (oi_dish_id row)) (oip_dish_id p);
     q \<leftarrow> not_null (Some (oi_quantity row)) (oip_quantity p);
     pr \<leftarrow> not_null (Some (oi_price row)) (oip_price p);
     Some \<lparr>oi_id = i, oi_order_id = ordr, oi_dish_id = di, oi_quantity = q, oi_price = pr\<rparr> }"

subsection \<open>CHECK constraints\<close>

definition profile_checks :: "profile_row \<Rightarrow> bool" where
  "profile_checks row = (p_user_type row \<in> set [''customer'', ''seller''])"

definition dish_checks :: "dish_row \<Rightarrow> bool" where
  "dish_checks row = (d_price row \<ge> 0)"

definition order_checks :: "order_row \<Rightarrow> bool" where
  "order_checks row =
     (o_total_amount row \<ge> 0 \<and>
      o_status row \<in> set [''pending'', ''confirmed'', ''preparing'', ''ready'',
                          ''delivered'', ''cancelled''])"

definition order_item_checks :: "order_item_row \<Rightarrow> bool" where
  "order_item_checks row = (oi_quantity row > 0 \<and> oi_price row \<ge> 0)"

section \<open>Statements\<close>

text \<open>
  One function per table and command. A statement either fails as a whole (\<open>Inl\<close>, the
  database is as before) or returns the new database. Foreign keys are checked against
  the whole referenced table: referential checks do not go through row-level security.
\<close>

subsection \<open>INSERT\<close>

text \<open>
  \<open>profiles.id\<close> has no default and references \<open>auth.users\<close>, which is the identity
  provider's table and is not modelled.
\<close>

definition insert_profiles :: "db \<Rightarrow> caller \<Rightarrow> profile_payload \<Rightarrow> db_error + db" where
  "insert_profiles d c p =
     (case new_profile p of
        None \<Rightarrow> Inl NotNullViolation
      | Some row \<Rightarrow>
          if \<not> check_ok profiles_policies INSERT d c row then Inl RlsViolation
          else if \<not> profile_checks row then Inl CheckViolation
          else if p_id row \<in> set (map p_id (profiles d))
                  \<or> p_email row \<in> set (map p_email (profiles d)) then Inl UniqueViolation
          else Inr (d\<lparr>profiles := profiles d @ [row]\<rparr>))"

definition insert_restaurants :: "db \<Rightarrow> caller \<Rightarrow> uuid \<Rightarrow> restaurant_payload \<Rightarrow> db_error + db" where
  "insert_restaurants d c gen p =
     (case new_restaurant gen p of
        None \<Rightarrow> Inl NotNullViolation
      | Some row \<Rightarrow>
          if \<not> check_ok restaurants_policies INSERT d c row then Inl RlsViolation
          else if r_id row \<in> set (map r_id (restaurants d)) then Inl UniqueViolation
          else if r_seller_id row \<notin> set (map p_id (profiles d)) then Inl ForeignKeyViolation
          else Inr (d\<lparr>restaurants := restaurants d @ [row]\<rparr>))"

definition insert_dishes :: "db \<Rightarrow> caller \<Rightarrow> uuid \<Rightarrow> dish_payload \<Rightarrow> db_error + db" where
  "insert_dishes d c gen p =
     (case new_dish gen p of
        None \<Rightarrow> Inl NotNullViolation
      | Some row \<Rightarrow>
          if \<not> check_ok dishes_policies INSERT d c row then Inl RlsViolation
          else if \<not> dish_checks row then Inl CheckViolation
          else if d_id row \<in> set (map d_id (dishes d)) then Inl UniqueViolation
          else if d_restaurant_id row \<notin> set (map r_id (restaurants d))
            then Inl ForeignKeyViolation
          else Inr (d\<lparr>dishes := dishes d @ [row]\<rparr>))"

text \<open>The order insert also returns the new row, for \<open>.select().single()\<close>.\<close>

definition insert_orders :: "db \<Rightarrow> caller \<Rightarrow> uuid \<Rightarrow> order_payload \<Rightarrow> db_error + (order_row \<times> db)" where
  "insert_orders d c gen p =
     (case new_order gen p of
        None \<Rightarrow> Inl NotNullViolation
      | Some row \<Rightarrow>
          if \<not> check_ok orders_policies INSERT d c row then Inl RlsViolation
          else if \<not> order_checks row then Inl CheckViolation
          else if o_id row \<in> set (map o_id (orders d)) then Inl UniqueViolation
          else if o_customer_id row \<notin> set (map p_id (profiles d))
                  \<or> o_restaurant_id row \<notin> set (map r_id (restaurants d))
            then Inl ForeignKeyViolation
          else Inr (row, d\<lparr>orders := orders d @ [row]\<rparr>))"

definition insert_order_item :: "db \<Rightarrow> caller \<Rightarrow> uuid \<Rightarrow> order_item_payload \<Rightarrow> db_error + db" where
  "insert_order_item d c gen p =
     (case new_order_item gen p of
        None \<Rightarrow> Inl NotNullViolation
      | Some row \<Rightarrow>
          if \<not> check_ok order_items_policies INSERT d c row then Inl RlsViolation
          else if \<not> order_item_checks row then Inl CheckViolation
          else if oi_id row \<in> set (map oi_id (order_items d)) then Inl UniqueViolation
          else if oi_order_id row \<notin> set (map o_id (orders d))
                  \<or> oi_dish_id row \<notin> set (map d_id (dishes d))
            then Inl ForeignKeyViolation
          else Inr (d\<lparr>order_items := order_items d @ [row]\<rparr>))"

text \<open>
  An array body inserts its rows in one statement, in order; the \<open>k\<close>-th row's generated
  id is \<open>gen k\<close>. One rejected row rejects the statement.
\<close>

fun insert_order_items ::
  "db \<Rightarrow> caller \<Rightarrow> (nat \<Rightarrow> uuid) \<Rightarrow> nat \<Rightarrow> order_item_payload list \<Rightarrow> db_error + db" where
  "insert_order_items d c gen k [] = Inr d"
| "insert_order_items d c gen k (p # ps) =
     (case insert_order_item d c (gen k) p of
        Inl e \<Rightarrow> Inl e
      | Inr d' \<Rightarrow> insert_order_items d' c gen (Suc k) ps)"

text \<open>The rows such a body describes, whether or not the statement is accepted.\<close>

fun proposed_order_items :: "(nat \<Rightarrow> uuid) \<Rightarrow> nat \<Rightarrow> order_item_payload list \<Rightarrow> order_item_row list" where
  "proposed_order_items gen k [] = []"
| "proposed_order_items gen k (p # ps) =
     (case new_order_item (gen k) p of None \<Rightarrow> [] | Some row \<Rightarrow> [row])
     @ proposed_order_items gen (Suc k) ps"

subsection \<open>UPDATE\<close>

text \<open>
  The rows an update touches are those that match its filter and pass the \<open>SELECT\<close> and
  the \<open>UPDATE\<close> policies' \<open>USING\<close>; the others are skipped silently. \<open>rewrite_rows\<close> gives
  the table after the update, each row marked with whether it was rewritten; \<open>None\<close> when
  a rewritten row would hold \<open>NULL\<close> in a \<open>NOT NULL\<close> column.
\<close>

definition rewrite_rows ::
  "('row \<Rightarrow> bool) \<Rightarrow> ('row \<Rightarrow> 'row option) \<Rightarrow> 'row list \<Rightarrow> (bool \<times> 'row) list option" where
  "rewrite_rows tgt f rows =
     those (map (\<lambda>row. if tgt row then map_option (Pair True) (f row) else Some (False, row))
              rows)"

text \<open>
  A unique index is checked for the rows the statement writes: the key of each rewritten
  row occurs once in the table.
\<close>

definition keys_unique :: "'k list \<Rightarrow> 'k list \<Rightarrow> bool" where
  "keys_unique new_keys table_keys = list_all (\<lambda>k. count_list table_keys k = 1) new_keys"

text \<open>
  A key that other rows refer to may not vanish (\<open>ON UPDATE\<close> is not given, so it is
  \<open>NO ACTION\<close>): every reference that pointed into the old keys points into the new ones.
\<close>

definition keeps_references :: "uuid list \<Rightarrow> uuid list \<Rightarrow> uuid list \<Rightarrow> bool" where
  "keeps_references old_keys new_keys refs =
     list_all (\<lambda>k. k \<in> set old_keys \<longrightarrow> k \<in> set new_keys) refs"

definition update_profiles ::
  "db \<Rightarrow> caller \<Rightarrow> (profile_row \<Rightarrow> bool) \<Rightarrow> profile_payload \<Rightarrow> db_error + db" where
  "update_profiles d c wh p =
     (case rewrite_rows
             (\<lambda>row. wh row \<and> using_ok profiles_policies SELECT d c row
                          \<and> using_ok profiles_policies UPDATE d c row)
             (set_profile p) (profiles d) of
        None \<Rightarrow> Inl NotNullViolation
      | Some marked \<Rightarrow>
          let news = map snd (filter fst marked); tbl = map snd marked in
          if \<not> list_all (\<lambda>row. check_ok profiles_policies UPDATE d c row
                                 \<and> using_ok profiles_policies SELECT d c row) news
            then Inl RlsViolation
          else if \<not> list_all profile_checks news then Inl CheckViolation
          else if \<not> keys_unique (map p_id news) (map p_id tbl)
                  \<or> \<not> keys_unique (map p_email news) (map p_email tbl)
            then Inl UniqueViolation
          else if \<not> keeps_references (map p_id (profiles d)) (map p_id tbl)
                       (map r_seller_id (restaurants d) @ map o_customer_id (orders d))
            then Inl ForeignKeyViolation
          else Inr (d\<lparr>profiles := tbl\<rparr>))"

definition update_restaurants ::
  "db \<Rightarrow> caller \<Rightarrow> (restaurant_row \<Rightarrow> bool) \<Rightarrow> restaurant_payload \<Rightarrow> db_error + db" where
  "update_restaurants d c wh p =
     (case rewrite_rows
             (\<lambda>row. wh row \<and> using_ok restaurants_policies SELECT d c row
                          \<and> using_ok restaurants_policies UPDATE d c row)
             (set_restaurant p) (restaurants d) of
        None \<Rightarrow> Inl NotNullViolation
      | Some marked \<Rightarrow>
          let news = map snd (filter fst marked); tbl = map snd marked in
          if \<not> list_all (\<lambda>row. check_ok restaurants_policies UPDATE d c row
                                 \<and> using_ok restaurants_policies SELECT d c row) news
            then Inl RlsViolation
          else if \<not> keys_unique (map r_id news) (map r_id tbl) then Inl UniqueViolation
          else if \<not> list_all (\<lambda>row. r_seller_id row \<in> set (map p_id (profiles d))) news
                  \<or> \<not> keeps_references (map r_id (restaurants d)) (map r_id tbl)
                         (map d_restaurant_id (dishes d) @ map o_restaurant_id (orders d))
            then Inl ForeignKeyViolation
          else Inr (d\<lparr>restaurants := tbl\<rparr>))"

definition update_dishes ::
  "db \<Rightarrow> caller \<Rightarrow> (dish_row \<Rightarrow> bool) \<Rightarrow> dish_payload \<Rightarrow> db_error + db" where
  "update_dishes d c wh p =
     (case rewrite_rows
             (\<lambda>row. wh row \<and> using_ok dishes_policies SELECT d c row
                          \<and> using_ok dishes_policies UPDATE d c row)
             (set_dish p) (dishes d) of
        None \<Rightarrow> Inl NotNullViolation
      | Some marked \<Rightarrow>
          let news = map snd (filter fst marked); tbl = map snd marked in
          if \<not> list_all (\<lambda>row. check_ok dishes_policies UPDATE d c row
                                 \<and> using_ok dishes_policies SELECT d c row) news
            then Inl RlsViolation
          else if \<not> list_all dish_checks news then Inl CheckViolation
          else if \<not> keys_unique (map d_id news) (map d_id tbl) then Inl UniqueViolation
          else if \<not> list_all (\<lambda>row. d_restaurant_id row \<in> set (map r_id (restaurants d))) news
                  \<or> \<not> keeps_references (map d_id (dishes d)) (map d_id tbl)
                         (map oi_dish_id (order_items d))
            then Inl ForeignKeyViolation
          else Inr (d\<lparr>dishes := tbl\<rparr>))"

definition update_orders ::
  "db \<Rightarrow> caller \<Rightarrow> (order_row \<Rightarrow> bool) \<Rightarrow> order_payload \<Rightarrow> db_error + db" where
  "update_orders d c wh p =
     (case rewrite_rows
             (\<lambda>row. wh row \<and> using_ok orders_policies SELECT d c row
                          \<and> using_ok orders_policies UPDATE d c row)
             (set_order p) (orders d) of
        None \<Rightarrow> Inl NotNullViolation
      | Some marked \<Rightarrow>
          let news = map snd (filter fst marked); tbl = map snd marked in
          if \<not> list_all (\<lambda>row. check_ok orders_policies UPDATE d c row
                                 \<and> using_ok orders_policies SELECT d c row) news
            then Inl RlsViolation
          else if \<not> list_all order_checks news then Inl CheckViolation
          else if \<not> keys_unique (map o_id news) (map o_id tbl) then Inl UniqueViolation
          else if \<not> list_all (\<lambda>row. o_customer_id row \<in> set (map p_id (profiles d))
                                   \<and> o_restaurant_id row \<in> set (map r_id (restaurants d))) news
                  \<or> \<not> keeps_references (map o_id (orders d)) (map o_id tbl)
                         (map oi_order_id (order_items d))
            then Inl ForeignKeyViolation
          else Inr (d\<lparr>orders := tbl\<rparr>))"

definition update_order_items ::
  "db \<Rightarrow> caller \<Rightarrow> (order_item_row \<Rightarrow> bool) \<Rightarrow> order_item_payload \<Rightarrow> db_error + db" where
  "update_order_items d c wh p =
     (case rewrite_rows
             (\<lambda>row. wh row \<and> using_ok order_items_policies SELECT d c row
                          \<and> using_ok order_items_policies UPDATE d c row)
             (set_order_item p) (order_items d) of
        None \<Rightarrow> Inl NotNullViolation
      | Some marked \<Rightarrow>
          let news = map snd (filter fst marked); tbl = map snd marked in
          if \<not> list_all (\<lambda>row. check_ok order_items_policies UPDATE d c row
                                 \<and> using_ok order_items_policies SELECT d c row) news
            then Inl RlsViolation
          else if \<not> list_all order_item_checks news then Inl CheckViolation
          else if \<not> keys_unique (map oi_id news) (map oi_id tbl) then Inl UniqueViolation
          else if \<not> list_all (\<lambda>row. oi_order_id row \<in> set (map o_id (orders d))
                                   \<and> oi_dish_id row \<in> set (map d_id (dishes d))) news
            then Inl ForeignKeyViolation
          else Inr (d\<lparr>order_items := tbl\<rparr>))"

subsection \<open>DELETE\<close>

text \<open>
  Every foreign key of the schema is \<open>ON DELETE CASCADE\<close>: removing rows removes the rows
  that refer to them, whoever owns those.
\<close>

definition remove_order_items :: "(order_item_row \<Rightarrow> bool) \<Rightarrow> db \<Rightarrow> db" where
  "remove_order_items gone d = d\<lparr>order_items := filter (\<lambda>row. \<not> gone row) (order_items d)\<rparr>"

definition remove_orders :: "(order_row \<Rightarrow> bool) \<Rightarrow> db \<Rightarrow> db" where
  "remove_orders gone d =
     (let keys = map o_id (filter gone (orders d)) in
      remove_order_items (\<lambda>row. oi_order_id row \<in> set keys)
        (d\<lparr>orders := filter (\<lambda>row. \<not> gone row) (orders d)\<rparr>))"

definition remove_dishes :: "(dish_row \<Rightarrow> bool) \<Rightarrow> db \<Rightarrow> db" where
  "remove_dishes gone d =
     (let keys = map d_id (filter gone (dishes d)) in
      remove_order_items (\<lambda>row. oi_dish_id row \<in> set keys)
        (d\<lparr>dishes := filter (\<lambda>row. \<not> gone row) (dishes d)\<rparr>))"

definition remove_restaurants :: "(restaurant_row \<Rightarrow> bool) \<Rightarrow> db \<Rightarrow> db" where
  "remove_restaurants gone d =
     (let keys = map r_id (filter gone (restaurants d)) in
      remove_orders (\<lambda>row. o_restaurant_id row \<in> set keys)
        (remove_dishes (\<lambda>row. d_restaurant_id row \<in> set keys)
           (d\<lparr>restaurants := filter (\<lambda>row. \<not> gone row) (restaurants d)\<rparr>)))"

definition remove_profiles :: "(profile_row \<Rightarrow> bool) \<Rightarrow> db \<Rightarrow> db" where
  "remove_profiles gone d =
     (let keys = map p_id (filter gone (profiles d)) in
      remove_orders (\<lambda>row. o_customer_id row \<in> set keys)
        (remove_restaurants (\<lambda>row. r_seller_id row \<in> set keys)
           (d\<lparr>profiles := filter (\<lambda>row. \<not> gone row) (profiles d)\<rparr>)))"

text \<open>
  A delete removes the rows that match its filter and pass the \<open>SELECT\<close> and the \<open>DELETE\<close>
  policies' \<open>USING\<close>.
\<close>

definition delete_profiles :: "db \<Rightarrow> caller \<Rightarrow> (profile_row \<Rightarrow> bool) \<Rightarrow> db" where
  "delete_profiles d c wh =
     remove_profiles (\<lambda>row. wh row \<and> using_ok profiles_policies SELECT d c row
                                  \<and> using_ok profiles_policies DELETE d c row) d"

definition delete_restaurants :: "db \<Rightarrow> caller \<Rightarrow> (restaurant_row \<Rightarrow> bool) \<Rightarrow> db" where
  "delete_restaurants d c wh =
     remove_restaurants (\<lambda>row. wh row \<and> using_ok restaurants_policies SELECT d c row
                                     \<and> using_ok restaurants_policies DELETE d c row) d"

definition delete_dishes :: "db \<Rightarrow> caller \<Rightarrow> (dish_row \<Rightarrow> bool) \<Rightarrow> db" where
  "delete_dishes d c wh =
     remove_dishes (\<lambda>row. wh row \<and> using_ok dishes_policies SELECT d c row
                                \<and> using_ok dishes_policies DELETE d c row) d"

definition delete_orders :: "db \<Rightarrow> caller \<Rightarrow> (order_row \<Rightarrow> bool) \<Rightarrow> db" where
  "delete_orders d c wh =
     remove_orders (\<lambda>row. wh row \<and> using_ok orders_policies SELECT d c row
                                \<and> using_ok orders_policies DELETE d c row) d"

definition delete_order_items :: "db \<Rightarrow> caller \<Rightarrow> (order_item_row \<Rightarrow> bool) \<Rightarrow> db" where
  "delete_order_items d c wh =
     remove_order_items (\<lambda>row. wh row \<and> using_ok order_items_policies SELECT d c row
                                     \<and> using_ok order_items_policies DELETE d c row) d"

subsection \<open>SELECT\<close>

definition select_restaurants :: "db \<Rightarrow> caller \<Rightarrow> (restaurant_row \<Rightarrow> bool) \<Rightarrow> restaurant_row list" where
  "select_restaurants d c wh =
     filter (\<lambda>row. wh row \<and> using_ok restaurants_policies SELECT d c row) (restaurants d)"

text \<open>The filter \<open>.eq('id', value)\<close> on \<open>dishes\<close> and on \<open>profiles\<close>.\<close>

definition dish_eq_id :: "uuid \<Rightarrow> dish_row \<Rightarrow> bool" where
  "dish_eq_id k = (\<lambda>row. d_id row = k)"

definition profile_eq_id :: "uuid \<Rightarrow> profile_row \<Rightarrow> bool" where
  "profile_eq_id k = (\<lambda>row. p_id row = k)"

subsection \<open>The interface: every write a client can send\<close>

datatype request =
    InsertProfile profile_payload
  | UpdateProfiles "profile_row \<Rightarrow> bool" profile_payload
  | DeleteProfiles "profile_row \<Rightarrow> bool"
  | InsertRestaurant restaurant_payload
  | UpdateRestaurants "restaurant_row \<Rightarrow> bool" restaurant_payload
  | DeleteRestaurants "restaurant_row \<Rightarrow> bool"
  | InsertDish dish_payload
  | UpdateDishes "dish_row \<Rightarrow> bool" dish_payload
  | DeleteDishes "dish_row \<Rightarrow> bool"
  | InsertOrder order_payload
  | UpdateOrders "order_row \<Rightarrow> bool" order_payload
  | DeleteOrders "order_row \<Rightarrow> bool"
  | InsertOrderItems "order_item_payload list"
  | UpdateOrderItems "order_item_row \<Rightarrow> bool" order_item_payload
  | DeleteOrderItems "order_item_row \<Rightarrow> bool"



fun exec :: "db \<Rightarrow> caller \<Rightarrow> (nat \<Rightarrow> uuid) \<Rightarrow> request \<Rightarrow> db_error + db" where
  "exec d c gen (InsertProfile p) = insert_profiles d c p"
| "exec d c gen (UpdateProfiles wh p) = update_profiles d c wh p"
| "exec d c gen (DeleteProfiles wh) = Inr (delete_profiles d c wh)"
| "exec d c gen (InsertRestaurant p) = insert_restaurants d c (gen 0) p"
| "exec d c gen (UpdateRestaurants wh p) = update_restaurants d c wh p"
| "exec d c gen (DeleteRestaurants wh) = Inr (delete_restaurants d c wh)"
| "exec d c gen (InsertDish p) = insert_dishes d c (gen 0) p"
| "exec d c gen (UpdateDishes wh p) = update_dishes d c wh p"
| "exec d c gen (DeleteDishes wh) = Inr (delete_dishes d c wh)"
| "exec d c gen (InsertOrder p) = map_sum (\<lambda>e. e) snd (insert_orders d c (gen 0) p)"
| "exec d c gen (UpdateOrders wh p) = update_orders d c wh p"
| "exec d c gen (DeleteOrders wh) = Inr (delete_orders d c wh)"
| "exec d c gen (InsertOrderItems ps) = insert_order_items d c gen 0 ps"
| "exec d c gen (UpdateOrderItems wh p) = update_order_items d c wh p"
| "exec d c gen (DeleteOrderItems wh) = Inr (delete_order_items d c wh)"

text \<open>
  A run of requests, each with its caller and the ids the backend generates for it. A
  rejected request changes nothing.
\<close>

fun step :: "db \<Rightarrow> caller \<times> (nat \<Rightarrow> uuid) \<times> request \<Rightarrow> db" where
  "step d (c, gen, rq) = (case exec d c gen rq of Inl e \<Rightarrow> d | Inr d' \<Rightarrow> d')"

definition run :: "db \<Rightarrow> (caller \<times> (nat \<Rightarrow> uuid) \<times> request) list \<Rightarrow> db" where
  "run d rqs = foldl step d rqs"

section \<open>Order placement (Cart.tsx)\<close>

text \<open>
  \<open>items.reduce((sum, item) => sum + (item.dish.price * item.quantity), 0)\<close>. The client
  computes with JavaScript numbers; here prices are rationals and the arithmetic is
  exact, so the rounding of binary floating point is outside this model.
\<close>

definition total :: "cart_item list \<Rightarrow> rat" where
  "total items = foldl (\<lambda>sum item. sum + d_price (dish item) * of_int (quantity item)) 0 items"

text \<open>\<open>String.prototype.trim\<close>, on the ASCII white space and line terminators.\<close>

definition js_whitespace :: "char \<Rightarrow> bool" where
  "js_whitespace ch =
     (ch \<in> set [CHR 0x09, CHR 0x0A, CHR 0x0B, CHR 0x0C, CHR 0x0D, CHR '' ''])"

definition trim :: "string \<Rightarrow> string" where
  "trim s = rev (dropWhile js_whitespace (rev (dropWhile js_whitespace s)))"

text \<open>
  What the screen shows when \<open>handlePlaceOrder\<close> returns: the address message and no
  request at all, the error of the first insert, the error of the second insert, or the
  success page.
\<close>

datatype place_outcome =
  AddressMissing | OrderRejected db_error | ItemsRejected db_error | Placed

text \<open>
  \<open>profile\<close> is the profile the client holds (\<open>useAuth()\<close>), \<open>c\<close> the session the backend
  sees, \<open>gen_order\<close> and \<open>gen_items\<close> the ids the backend generates for the two inserts.
  \<open>order_body\<close> is the object passed to the first \<open>insert\<close>, \<open>orderItems\<close> the array passed
  to the second. The \<open>catch\<close> block only sets the error message: nothing is sent after a
  failure.
\<close>

definition order_body :: "profile_row option \<Rightarrow> cart_item list \<Rightarrow> string \<Rightarrow> string \<Rightarrow> order_payload" where
  "order_body profile items deliveryAddress notes =
     \<lparr>op_id = Absent,
      op_customer_id = (case profile of None \<Rightarrow> Absent | Some pr \<Rightarrow> Given (p_id pr)),
      op_restaurant_id = (case items of [] \<Rightarrow> Absent
                          | item # _ \<Rightarrow> Given (r_id (restaurant item))),
      op_total_amount = Given (total items),
      op_status = Given ''pending'',
      op_delivery_address = Given deliveryAddress,
      op_notes = Given notes\<rparr>"

definition orderItems :: "order_row \<Rightarrow> cart_item list \<Rightarrow> order_item_payload list" where
  "orderItems ordr items =
     map (\<lambda>item. \<lparr>oip_id = Absent,
                   oip_order_id = Given (o_id ordr),
                   oip_dish_id = Given (d_id (dish item)),
                   oip_quantity = Given (quantity item),
                   oip_price = Given (d_price (dish item))\<rparr>) items"

definition handlePlaceOrder ::
  "db \<Rightarrow> caller \<Rightarrow> uuid \<Rightarrow> (nat \<Rightarrow> uuid) \<Rightarrow> profile_row option \<Rightarrow> cart_item list \<Rightarrow>
   string \<Rightarrow> string \<Rightarrow> place_outcome \<times> db" where
  "handlePlaceOrder d c gen_order gen_items profile items deliveryAddress notes =
     (if trim deliveryAddress = [] then (AddressMissing, d)
      else
        case insert_orders d c gen_order (order_body profile items deliveryAddress notes) of
          Inl orderError \<Rightarrow> (OrderRejected orderError, d)
        | Inr (ordr, d1) \<Rightarrow>
            if \<not> using_ok orders_policies SELECT d1 c ordr
            then (OrderRejected RlsViolation, d)
            else
              case insert_order_items d1 c gen_items 0 (orderItems ordr items) of
                Inl itemsError \<Rightarrow> (ItemsRejected itemsError, d1)
              | Inr d2 \<Rightarrow> (Placed, d2))"

section \<open>The dish form and the menu manager (DishForm.tsx, RestaurantManager)\<close>

record dish_form =
  form_name :: string
  form_description :: string
  form_price :: string
  form_imageUrl :: string
  form_category :: string

text \<open>
  \<open>parseFloat\<close> is a parameter: \<open>None\<close> stands for \<open>NaN\<close> (and the infinities), which the
  JSON body carries as \<open>null\<close>. \<open>editing\<close> is the \<open>dish\<close> prop: the dish being edited, or
  \<open>None\<close> for a new dish.
\<close>

definition dishData :: "(string \<Rightarrow> rat option) \<Rightarrow> restaurant_row \<Rightarrow> dish_form \<Rightarrow> dish_payload" where
  "dishData parseFloat rest form =
     \<lparr>dp_id = Absent,
      dp_restaurant_id = Given (r_id rest),
      dp_name = Given (form_name form),
      dp_description = Given (form_description form),
      dp_price = (case parseFloat (form_price form) of None \<Rightarrow> Null | Some v \<Rightarrow> Given v),
      dp_image_url = Given (form_imageUrl form),
      dp_category = Given (form_category form),
      dp_is_available = Absent\<rparr>"

definition handleSubmit ::
  "db \<Rightarrow> caller \<Rightarrow> uuid \<Rightarrow> (string \<Rightarrow> rat option) \<Rightarrow> restaurant_row \<Rightarrow> dish_row option \<Rightarrow>
   dish_form \<Rightarrow> db_error + db" where
  "handleSubmit d c gen parseFloat rest editing form =
     (case editing of
        Some dsh \<Rightarrow>
          update_dishes d c (dish_eq_id (d_id dsh)) (dishData parseFloat rest form)
      | None \<Rightarrow> insert_dishes d c gen (dishData parseFloat rest form))"

text \<open>\<open>confirmed\<close> is the answer to the \<open>confirm\<close> dialog.\<close>

definition handleDeleteDish :: "db \<Rightarrow> caller \<Rightarrow> bool \<Rightarrow> uuid \<Rightarrow> db" where
  "handleDeleteDish d c confirmed dishId =
     (if \<not> confirmed then d else delete_dishes d c (dish_eq_id dishId))"

section \<open>Example data\<close>

definition ex_profile :: "uuid \<Rightarrow> string \<Rightarrow> profile_row" where
  "ex_profile u t = \<lparr>p_id = u, p_email = u @ ''@example.org'', p_full_name = ''N'',
     p_user_type = t\<rparr>"

definition ex_restaurant :: "uuid \<Rightarrow> uuid \<Rightarrow> bool \<Rightarrow> restaurant_row" where
  "ex_restaurant rid sid act = \<lparr>r_id = rid, r_seller_id = sid, r_name = ''Diner'',
     r_description = Some [], r_address = Some [], r_phone = Some [], r_image_url = Some [],
     r_is_active = Some act\<rparr>"

definition ex_dish :: "uuid \<Rightarrow> uuid \<Rightarrow> rat \<Rightarrow> bool \<Rightarrow> dish_row" where
  "ex_dish did rid pr av = \<lparr>d_id = did, d_restaurant_id = rid, d_name = ''Soup'',
     d_description = Some [], d_price = pr, d_image_url = Some [], d_category = Some ''Other'',
     d_is_available = Some av\<rparr>"

definition ex_item :: "dish_row \<Rightarrow> restaurant_row \<Rightarrow> int \<Rightarrow> cart_item" where
  "ex_item ds rs q = \<lparr>dish = ds, restaurant = rs, quantity = q\<rparr>"

text \<open>
  A seller \<open>s1\<close> with restaurant \<open>r1\<close> (two dishes) and a seller \<open>s2\<close> with restaurant \<open>r2\<close>
  (one dish, the restaurant inactive), a customer \<open>c1\<close>, no orders yet.
\<close>

definition ex_db :: db where
  "ex_db = \<lparr>profiles = [ex_profile ''s1'' ''seller'', ex_profile ''s2'' ''seller'',
                         ex_profile ''c1'' ''customer''],
            restaurants = [ex_restaurant ''r1'' ''s1'' True, ex_restaurant ''r2'' ''s2'' False],
            dishes = [ex_dish ''d1'' ''r1'' (999 / 100) True, ex_dish ''d2'' ''r1'' 5 True,
                      ex_dish ''d3'' ''r2'' 3 True],
            orders = [],
            order_items = []\<rparr>"

definition ex_cart :: "cart_item list" where
  "ex_cart = [ex_item (ex_dish ''d1'' ''r1'' (999 / 100) True) (ex_restaurant ''r1'' ''s1'' True) 2,
              ex_item (ex_dish ''d2'' ''r1'' 5 True) (ex_restaurant ''r1'' ''s1'' True) 1]"

text \<open>
  A cart with dishes of two restaurants: \<open>d1\<close> of \<open>r1\<close>, then \<open>d3\<close> of \<open>r2\<close>, which was added
  while \<open>r2\<close> was still active (the cart keeps the objects it was given).
\<close>

definition ex_cart_mixed :: "cart_item list" where
  "ex_cart_mixed =
     [ex_item (ex_dish ''d1'' ''r1'' (999 / 100) True) (ex_restaurant ''r1'' ''s1'' True) 1,
      ex_item (ex_dish ''d3'' ''r2'' 3 True) (ex_restaurant ''r2'' ''s2'' True) 2]"

definition ex_gen :: "nat \<Rightarrow> uuid" where
  "ex_gen k = ''i'' @ replicate k CHR ''x''"

text \<open>The same database after the customer \<open>c1\<close> has ordered two \<open>d1\<close> and one \<open>d2\<close>.\<close>

definition ex_order :: order_row where
  "ex_order = \<lparr>o_id = ''o1'', o_customer_id = ''c1'', o_restaurant_id = ''r1'',
     o_total_amount = 2498 / 100, o_status = ''pending'',
     o_delivery_address = ''12 Main St'', o_notes = Some []\<rparr>"

definition ex_db_placed :: db where
  "ex_db_placed = ex_db\<lparr>orders := [ex_order],
     order_items := [\<lparr>oi_id = ''i'', oi_order_id = ''o1'', oi_dish_id = ''d1'',
                       oi_quantity = 2, oi_price = 999 / 100\<rparr>,
                     \<lparr>oi_id = ''ix'', oi_order_id = ''o1'', oi_dish_id = ''d2'',
                       oi_quantity = 1, oi_price = 5\<rparr>]\<rparr>"

definition set_status :: "string \<Rightarrow> order_payload" where
  "set_status s = \<lparr>op_id = Absent, op_customer_id = Absent, op_restaurant_id = Absent,
     op_total_amount = Absent, op_status = Given s, op_delivery_address = Absent,
     op_notes = Absent\<rparr>"

text \<open>The database after \<open>c1\<close> has ordered the mixed cart.\<close>

definition ex_db_placed_mixed :: db where
  "ex_db_placed_mixed = ex_db\<lparr>orders := [ex_order\<lparr>o_total_amount := 1599 / 100\<rparr>],
     order_items := [\<lparr>oi_id = ''i'', oi_order_id = ''o1'', oi_dish_id = ''d1'',
                       oi_quantity = 1, oi_price = 999 / 100\<rparr>,
                     \<lparr>oi_id = ''ix'', oi_order_id = ''o1'', oi_dish_id = ''d3'',
                       oi_quantity = 2, oi_price = 3\<rparr>]\<rparr>"

text \<open>A filled-in dish form, and a \<open>parseFloat\<close> that reads its price field as 12.\<close>

definition ex_form :: dish_form where
  "ex_form = \<lparr>form_name = ''Stew'', form_description = ''Hot'', form_price = ''12'',
     form_imageUrl = [], form_category = ''Main''\<rparr>"

definition ex_parseFloat :: "string \<Rightarrow> rat option" where
  "ex_parseFloat s = (if s = ''12'' then Some 12 else None)"

definition ex_edited :: dish_row where
  "ex_edited = \<lparr>d_id = ''d1'', d_restaurant_id = ''r1'', d_name = ''Stew'',
     d_description = Some ''Hot'', d_price = 12, d_image_url = Some [],
     d_category = Some ''Main'', d_is_available = Some True\<rparr>"

text \<open>Bodies that set one column.\<close>

definition set_user_type :: "string \<Rightarrow> profile_payload" where
  "set_user_type t = \<lparr>pp_id = Absent, pp_email = Absent, pp_full_name = Absent,
     pp_user_type = Given t\<rparr>"




section \<open>Cart properties\<close>

lemma dish_ids_addToCart_present:
  "d_id d \<in> set (dish_ids cartItems) \<Longrightarrow> dish_ids (addToCart cartItems d r) = dish_ids cartItems"
  by (auto simp: addToCart_def dish_ids_def find_None_iff comp_def split: option.splits)

lemma dish_ids_addToCart_absent:
  "d_id d \<notin> set (dish_ids cartItems) \<Longrightarrow>
   addToCart cartItems d r = cartItems @ [\<lparr>dish = d, restaurant = r, quantity = 1\<rparr>]"
  by (force simp: addToCart_def dish_ids_def find_None_iff split: option.splits)

lemma distinct_addToCart:
  "distinct (dish_ids cartItems) \<Longrightarrow> distinct (dish_ids (addToCart cartItems d r))"
proof (cases "d_id d \<in> set (dish_ids cartItems)")
  case True
  assume "distinct (dish_ids cartItems)"
  with True show ?thesis by (simp add: dish_ids_addToCart_present)
next
  case False
  assume "distinct (dish_ids cartItems)"
  with False show ?thesis
    by (simp add: dish_ids_addToCart_absent) (simp add: dish_ids_def)
qed

lemma dish_ids_updateCartItem_zero:
  "dish_ids (updateCartItem cartItems dishId 0) = filter (\<lambda>i. i \<noteq> dishId) (dish_ids cartItems)"
  by (simp add: updateCartItem_def dish_ids_def filter_map comp_def)

lemma dish_ids_updateCartItem_nonzero:
  "q \<noteq> 0 \<Longrightarrow> dish_ids (updateCartItem cartItems dishId q) = dish_ids cartItems"
  by (simp add: updateCartItem_def dish_ids_def)

lemma distinct_updateCartItem:
  "distinct (dish_ids cartItems) \<Longrightarrow> distinct (dish_ids (updateCartItem cartItems dishId q))"
  by (cases "q = 0") (simp_all add: dish_ids_updateCartItem_zero dish_ids_updateCartItem_nonzero)

lemma distinct_cart_step:
  "distinct (dish_ids cartItems) \<Longrightarrow> distinct (dish_ids (cart_step cartItems a))"
  by (cases a) (simp_all add: distinct_addToCart distinct_updateCartItem)

lemma distinct_foldl_cart_step:
  "distinct (dish_ids cartItems) \<Longrightarrow> distinct (dish_ids (foldl cart_step cartItems acts))"
  by (induction acts arbitrary: cartItems) (simp_all add: distinct_cart_step)

lemma quantity_of_addToCart_present:
  "quantity_of cartItems (d_id d) = Some q \<Longrightarrow>
   quantity_of (addToCart cartItems d r) (d_id d) = Some (q + 1)"
proof -
  assume a: "quantity_of cartItems (d_id d) = Some q"
  have m: "quantity_of (map (\<lambda>item. if d_id (dish item) = k
                      then item\<lparr>quantity := quantity item + 1\<rparr> else item) xs) k
           = map_option (\<lambda>n. n + 1) (quantity_of xs k)" for xs k
    by (induction xs) (simp_all add: quantity_of_def)
  from a have "find (\<lambda>item. d_id (dish item) = d_id d) cartItems \<noteq> None"
    by (auto simp: quantity_of_def)
  then have "addToCart cartItems d r = map (\<lambda>item. if d_id (dish item) = d_id d
                      then item\<lparr>quantity := quantity item + 1\<rparr> else item) cartItems"
    by (auto simp: addToCart_def split: option.splits)
  with a show ?thesis by (simp add: m)
qed

lemma quantity_of_updateCartItem:
  "q \<noteq> 0 \<Longrightarrow> quantity_of (updateCartItem cartItems dishId q) dishId
     = map_option (\<lambda>_. q) (quantity_of cartItems dishId)"
  by (induction cartItems) (auto simp: quantity_of_def updateCartItem_def)

lemma quantity_of_updateCartItem_other:
  "k \<noteq> dishId \<Longrightarrow> quantity_of (updateCartItem cartItems dishId q) k = quantity_of cartItems k"
  by (induction cartItems) (auto simp: quantity_of_def updateCartItem_def)

section \<open>What each policy set accepts\<close>


lemma auth_uid_Some_authenticated: "auth_uid c = Some u \<Longrightarrow> is_authenticated c"
  by (cases c) simp_all

lemma auth_uid_Some_iff: "auth_uid c = Some u \<longleftrightarrow> c = Authenticated u"
  by (cases c) auto

lemma profiles_select_using:
  "using_ok profiles_policies SELECT d c row \<longleftrightarrow> auth_uid c = Some (p_id row)"
  by (auto simp: using_ok_def profiles_policies_def auth_uid_Some_authenticated)

lemma profiles_update_using:
  "using_ok profiles_policies UPDATE d c row \<longleftrightarrow> auth_uid c = Some (p_id row)"
  by (auto simp: using_ok_def profiles_policies_def auth_uid_Some_authenticated)

lemma profiles_delete_using: "\<not> using_ok profiles_policies DELETE d c row"
  by (simp add: using_ok_def profiles_policies_def)

lemma visible_profiles_iff:
  "p \<in> set (visible_profiles d c) \<longleftrightarrow> p \<in> set (profiles d) \<and> auth_uid c = Some (p_id p)"
  by (auto simp: visible_profiles_def profiles_select_using)

lemma restaurants_select_using:
  "using_ok restaurants_policies SELECT d c row \<longleftrightarrow>
     is_authenticated c \<and> (r_is_active row = Some True \<or> auth_uid c = Some (r_seller_id row))"
  by (auto simp: using_ok_def restaurants_policies_def)

lemma visible_restaurants_iff:
  "r \<in> set (visible_restaurants d c) \<longleftrightarrow>
     r \<in> set (restaurants d) \<and> is_authenticated c \<and>
     (r_is_active r = Some True \<or> auth_uid c = Some (r_seller_id r))"
  by (auto simp: visible_restaurants_def restaurants_select_using)

lemma owns_restaurant_iff:
  "owns_restaurant d c k \<longleftrightarrow>
     (\<exists>r \<in> set (restaurants d). r_id r = k \<and> auth_uid c = Some (r_seller_id r))"
  by (auto simp: owns_restaurant_def list_ex_iff visible_restaurants_iff
      auth_uid_Some_authenticated)

lemma dishes_select_using:
  "using_ok dishes_policies SELECT d c row \<longleftrightarrow>
     is_authenticated c \<and>
     ((d_is_available row = Some True \<and>
       (\<exists>r \<in> set (restaurants d). r_id r = d_restaurant_id row \<and> r_is_active r = Some True))
      \<or> owns_restaurant d c (d_restaurant_id row))"
  by (auto simp: using_ok_def dishes_policies_def list_ex_iff visible_restaurants_iff)

lemma orders_select_using:
  "using_ok orders_policies SELECT d c row \<longleftrightarrow>
     auth_uid c = Some (o_customer_id row) \<or> owns_restaurant d c (o_restaurant_id row)"
  by (auto simp: using_ok_def orders_policies_def auth_uid_Some_authenticated owns_restaurant_iff)

lemma orders_update_using:
  "using_ok orders_policies UPDATE d c row \<longleftrightarrow>
     auth_uid c = Some (o_customer_id row) \<or> owns_restaurant d c (o_restaurant_id row)"
  by (auto simp: using_ok_def orders_policies_def auth_uid_Some_authenticated owns_restaurant_iff)

lemma orders_update_check:
  "check_ok orders_policies UPDATE d c row \<longleftrightarrow>
     auth_uid c = Some (o_customer_id row) \<or> owns_restaurant d c (o_restaurant_id row)"
  by (auto simp: check_ok_def orders_policies_def auth_uid_Some_authenticated owns_restaurant_iff)

lemma orders_delete_using: "\<not> using_ok orders_policies DELETE d c row"
  by (simp add: using_ok_def orders_policies_def)

lemma order_items_update_using: "\<not> using_ok order_items_policies UPDATE d c row"
  by (simp add: using_ok_def order_items_policies_def)

lemma order_items_delete_using: "\<not> using_ok order_items_policies DELETE d c row"
  by (simp add: using_ok_def order_items_policies_def)

lemma unique_key:
  "distinct (map f xs) \<Longrightarrow> x \<in> set xs \<Longrightarrow> y \<in> set xs \<Longrightarrow> f x = f y \<Longrightarrow> x = y"
  by (meson distinct_map inj_on_eq_iff)

lemma parent_restaurant:
  assumes "distinct (map r_id (restaurants d))" "R \<in> set (restaurants d)"
  shows "(\<exists>r \<in> set (restaurants d). r_id r = r_id R \<and> P r) \<longleftrightarrow> P R"
  using assms by (auto dest: unique_key)

section \<open>What a statement changes\<close>


lemma rewrite_rows_Some:
  "rewrite_rows tgt f rows = Some marked \<Longrightarrow>
   list_all2 (\<lambda>row m. if tgt row then fst m \<and> f row = Some (snd m) else m = (False, row))
     rows marked"
proof (induction rows arbitrary: marked)
  case Nil
  then show ?case by (simp add: rewrite_rows_def)
next
  case (Cons x xs)
  from Cons.prems obtain m ms where ms: "marked = m # ms"
      "(if tgt x then map_option (Pair True) (f x) else Some (False, x)) = Some m"
      "rewrite_rows tgt f xs = Some ms"
    by (auto simp: rewrite_rows_def split: option.splits)
  from Cons.IH [OF ms(3)] ms(1,2) show ?case
    by (auto split: if_splits)
qed

lemma rewrite_rows_kept:
  assumes "rewrite_rows tgt f rows = Some marked" "x \<in> set rows" "\<not> tgt x"
  shows "x \<in> set (map snd marked)"
proof -
  from assms(2) obtain i where i: "i < length rows" "rows ! i = x"
    by (auto simp: in_set_conv_nth)
  from rewrite_rows_Some [OF assms(1)] i assms(3)
  have "i < length marked" "marked ! i = (False, x)"
    by (auto simp: list_all2_conv_all_nth)
  then have "snd (marked ! i) = x" "i < length marked" by simp_all
  then show ?thesis by (metis length_map nth_map nth_mem)
qed

lemma rewrite_rows_table:
  assumes "rewrite_rows tgt f rows = Some marked" "y \<in> set (map snd marked)"
  shows "y \<in> set rows \<or> (\<exists>x \<in> set rows. tgt x \<and> f x = Some y)"
proof -
  from assms(2) obtain i where i: "i < length marked" "snd (marked ! i) = y"
    by (auto simp: in_set_conv_nth)
  from rewrite_rows_Some [OF assms(1)] i
  have l: "i < length rows"
    and c: "if tgt (rows ! i) then fst (marked ! i) \<and> f (rows ! i) = Some (snd (marked ! i))
            else marked ! i = (False, rows ! i)"
    by (auto simp: list_all2_conv_all_nth)
  show ?thesis
  proof (cases "tgt (rows ! i)")
    case True
    with c i l show ?thesis by (auto intro: nth_mem)
  next
    case False
    with c i l show ?thesis by (auto simp: in_set_conv_nth)
  qed
qed

lemma rewrite_rows_none_targeted:
  "(\<And>x. x \<in> set rows \<Longrightarrow> \<not> tgt x) \<Longrightarrow> rewrite_rows tgt f rows = Some (map (Pair False) rows)"
  by (induction rows) (simp_all add: rewrite_rows_def)

lemma update_orders_Inr:
  "update_orders d c wh p = Inr d' \<Longrightarrow>
   \<exists>marked. rewrite_rows (\<lambda>row. wh row \<and> using_ok orders_policies SELECT d c row
                          \<and> using_ok orders_policies UPDATE d c row)
             (set_order p) (orders d) = Some marked \<and> d' = d\<lparr>orders := map snd marked\<rparr>"
  by (auto simp: update_orders_def Let_def split: option.splits if_splits)

section \<open>What order placement writes\<close>


lemma insert_orders_Inr:
  "insert_orders d c gen p = Inr (row, d') \<Longrightarrow>
   new_order gen p = Some row \<and> d' = d\<lparr>orders := orders d @ [row]\<rparr>
   \<and> o_id row \<notin> set (map o_id (orders d))"
  by (auto simp: insert_orders_def split: option.splits if_splits)

lemma new_order_order_body:
  "new_order gen (order_body profile items deliveryAddress notes) = Some row \<Longrightarrow>
   o_id row = gen \<and> o_total_amount row = total items \<and> o_status row = ''pending''
   \<and> o_delivery_address row = deliveryAddress \<and> o_notes row = Some notes
   \<and> profile = Some (the profile) \<and> o_customer_id row = p_id (the profile)
   \<and> items \<noteq> [] \<and> o_restaurant_id row = r_id (restaurant (hd items))"
  by (auto simp: new_order_def order_body_def split: option.splits list.splits bind_splits)

lemma insert_order_item_Inr:
  "insert_order_item d c g p = Inr d' \<Longrightarrow>
   \<exists>row. new_order_item g p = Some row \<and> d' = d\<lparr>order_items := order_items d @ [row]\<rparr>"
  by (auto simp: insert_order_item_def split: option.splits if_splits)

lemma insert_order_items_Inr:
  "insert_order_items d c gen k ps = Inr d' \<Longrightarrow>
   d' = d\<lparr>order_items := order_items d @ proposed_order_items gen k ps\<rparr>"
proof (induction ps arbitrary: d k)
  case Nil
  then show ?case by simp
next
  case (Cons p ps)
  from Cons.prems obtain d1 where d1: "insert_order_item d c (gen k) p = Inr d1"
      "insert_order_items d1 c gen (Suc k) ps = Inr d'"
    by (auto split: sum.splits)
  from insert_order_item_Inr [OF d1(1)] obtain row where
    row: "new_order_item (gen k) p = Some row" "d1 = d\<lparr>order_items := order_items d @ [row]\<rparr>"
    by blast
  from Cons.IH [OF d1(2)] row show ?case by simp
qed

lemma proposed_orderItems:
  "proposed_order_items gen k (orderItems ordr items) =
   map (\<lambda>(i, item). \<lparr>oi_id = gen i, oi_order_id = o_id ordr, oi_dish_id = d_id (dish item),
                      oi_quantity = quantity item, oi_price = d_price (dish item)\<rparr>)
     (enumerate k items)"
  by (induction items arbitrary: k) (simp_all add: orderItems_def new_order_item_def)

lemma handlePlaceOrder_Placed:
  assumes "handlePlaceOrder d c gen_order gen_items profile items deliveryAddress notes = (Placed, d')"
  shows "\<exists>ordr. new_order gen_order (order_body profile items deliveryAddress notes) = Some ordr
     \<and> o_id ordr \<notin> set (map o_id (orders d))
     \<and> d' = d\<lparr>orders := orders d @ [ordr],
              order_items := order_items d @
                 map (\<lambda>(i, item). \<lparr>oi_id = gen_items i, oi_order_id = o_id ordr,
                        oi_dish_id = d_id (dish item), oi_quantity = quantity item,
                        oi_price = d_price (dish item)\<rparr>) (enumerate 0 items)\<rparr>"
proof -
  from assms obtain ordr d1 where
    a: "insert_orders d c gen_order (order_body profile items deliveryAddress notes) = Inr (ordr, d1)"
    and b: "insert_order_items d1 c gen_items 0 (orderItems ordr items) = Inr d'"
    by (auto simp: handlePlaceOrder_def split: if_splits sum.splits prod.splits)
  from insert_orders_Inr [OF a] insert_order_items_Inr [OF b] show ?thesis
    by (auto simp: proposed_orderItems)
qed

lemma handlePlaceOrder_ItemsRejected:
  assumes "handlePlaceOrder d c gen_order gen_items profile items deliveryAddress notes
             = (ItemsRejected e, d')"
  shows "\<exists>ordr. new_order gen_order (order_body profile items deliveryAddress notes) = Some ordr
     \<and> o_id ordr \<notin> set (map o_id (orders d))
     \<and> d' = d\<lparr>orders := orders d @ [ordr]\<rparr>"
proof -
  from assms obtain ordr where
    a: "insert_orders d c gen_order (order_body profile items deliveryAddress notes) = Inr (ordr, d')"
    by (auto simp: handlePlaceOrder_def split: if_splits sum.splits prod.splits)
  from insert_orders_Inr [OF a] show ?thesis by auto
qed

lemma update_dishes_Inr:
  "update_dishes d c wh p = Inr d' \<Longrightarrow>
   \<exists>marked. rewrite_rows (\<lambda>row. wh row \<and> using_ok dishes_policies SELECT d c row
                          \<and> using_ok dishes_policies UPDATE d c row)
             (set_dish p) (dishes d) = Some marked \<and> d' = d\<lparr>dishes := map snd marked\<rparr>"
  by (auto simp: update_dishes_def Let_def split: option.splits if_splits)


lemma ex_placed_mixed:
  "handlePlaceOrder ex_db (Authenticated ''c1'') ''o1'' ex_gen (Some (ex_profile ''c1'' ''customer''))
       (ex_item (ex_dish ''d1'' ''r1'' (999 / 100) True) (ex_restaurant ''r1'' ''s1'' True) 1
          # tl ex_cart_mixed) ''12 Main St'' []
   = (Placed, ex_db_placed_mixed)"
  by code_simp

lemma ex_orphan:
  "handlePlaceOrder (handleDeleteDish ex_db (Authenticated ''s1'') True ''d2'') (Authenticated ''c1'')
       ''o1'' ex_gen (Some (ex_profile ''c1'' ''customer'')) ex_cart ''12 Main St'' []
   = (ItemsRejected ForeignKeyViolation,
      (handleDeleteDish ex_db (Authenticated ''s1'') True ''d2'')\<lparr>orders := [ex_order]\<rparr>)"
  by code_simp

lemma set_dish_dishData:
  "set_dish (dishData parseFloat rest form) row = Some new \<Longrightarrow>
   \<exists>v. parseFloat (form_price form) = Some v \<and>
       new = row\<lparr>d_restaurant_id := r_id rest, d_name := form_name form,
                 d_description := Some (form_description form), d_price := v,
                 d_image_url := Some (form_imageUrl form),
                 d_category := Some (form_category form)\<rparr>"
  by (cases "parseFloat (form_price form)") (auto simp: set_dish_def dishData_def)

lemma ex_edit:
  "handleSubmit ex_db (Authenticated ''s1'') ''g'' ex_parseFloat (ex_restaurant ''r1'' ''s1'' True)
     (Some (ex_dish ''d1'' ''r1'' (999 / 100) True)) ex_form
   = Inr (ex_db\<lparr>dishes := [ex_edited, ex_dish ''d2'' ''r1'' 5 True, ex_dish ''d3'' ''r2'' 3 True]\<rparr>)"
  by code_simp

section \<open>What each request leaves alone\<close>


lemma remove_order_items_frame:
  "profiles (remove_order_items g d) = profiles d"
  "restaurants (remove_order_items g d) = restaurants d"
  "dishes (remove_order_items g d) = dishes d"
  "orders (remove_order_items g d) = orders d"
  "order_items (remove_order_items g d) = filter (\<lambda>row. \<not> g row) (order_items d)"
  by (simp_all add: remove_order_items_def)

lemma remove_orders_frame:
  "profiles (remove_orders g d) = profiles d"
  "restaurants (remove_orders g d) = restaurants d"
  "dishes (remove_orders g d) = dishes d"
  "orders (remove_orders g d) = filter (\<lambda>row. \<not> g row) (orders d)"
  "set (order_items (remove_orders g d)) \<subseteq> set (order_items d)"
  by (auto simp: remove_orders_def Let_def remove_order_items_frame)

lemma remove_dishes_frame:
  "profiles (remove_dishes g d) = profiles d"
  "restaurants (remove_dishes g d) = restaurants d"
  "dishes (remove_dishes g d) = filter (\<lambda>row. \<not> g row) (dishes d)"
  "orders (remove_dishes g d) = orders d"
  "set (order_items (remove_dishes g d)) \<subseteq> set (order_items d)"
  by (auto simp: remove_dishes_def Let_def remove_order_items_frame)

lemma remove_restaurants_frame:
  "profiles (remove_restaurants g d) = profiles d"
  "restaurants (remove_restaurants g d) = filter (\<lambda>row. \<not> g row) (restaurants d)"
  "set (order_items (remove_restaurants g d)) \<subseteq> set (order_items d)"
proof -
  show "profiles (remove_restaurants g d) = profiles d"
    by (simp add: remove_restaurants_def Let_def remove_orders_frame remove_dishes_frame)
  show "restaurants (remove_restaurants g d) = filter (\<lambda>row. \<not> g row) (restaurants d)"
    by (simp add: remove_restaurants_def Let_def remove_orders_frame remove_dishes_frame)
  have "set (order_items (remove_restaurants g d))
        \<subseteq> set (order_items (d\<lparr>restaurants := filter (\<lambda>row. \<not> g row) (restaurants d)\<rparr>))"
    unfolding remove_restaurants_def Let_def
    by (rule subset_trans [OF remove_orders_frame(5) remove_dishes_frame(5)])
  then show "set (order_items (remove_restaurants g d)) \<subseteq> set (order_items d)" by simp
qed

lemma remove_profiles_frame:
  "profiles (remove_profiles g d) = filter (\<lambda>row. \<not> g row) (profiles d)"
  "set (order_items (remove_profiles g d)) \<subseteq> set (order_items d)"
proof -
  show "profiles (remove_profiles g d) = filter (\<lambda>row. \<not> g row) (profiles d)"
    by (simp add: remove_profiles_def Let_def remove_orders_frame remove_restaurants_frame)
  have "set (order_items (remove_profiles g d))
        \<subseteq> set (order_items (d\<lparr>profiles := filter (\<lambda>row. \<not> g row) (profiles d)\<rparr>))"
    unfolding remove_profiles_def Let_def
    by (rule subset_trans [OF remove_orders_frame(5) remove_restaurants_frame(3)])
  then show "set (order_items (remove_profiles g d)) \<subseteq> set (order_items d)" by simp
qed

lemma insert_profiles_Inr:
  "insert_profiles d c p = Inr d' \<Longrightarrow>
   \<exists>row. profile_checks row \<and> d' = d\<lparr>profiles := profiles d @ [row]\<rparr>"
  by (auto simp: insert_profiles_def split: option.splits if_splits)

lemma insert_restaurants_Inr:
  "insert_restaurants d c g p = Inr d' \<Longrightarrow> \<exists>row. d' = d\<lparr>restaurants := restaurants d @ [row]\<rparr>"
  by (auto simp: insert_restaurants_def split: option.splits if_splits)

lemma insert_dishes_Inr:
  "insert_dishes d c g p = Inr d' \<Longrightarrow> \<exists>row. d' = d\<lparr>dishes := dishes d @ [row]\<rparr>"
  by (auto simp: insert_dishes_def split: option.splits if_splits)

lemma update_profiles_Inr:
  "update_profiles d c wh p = Inr d' \<Longrightarrow>
   \<exists>marked. rewrite_rows (\<lambda>row. wh row \<and> using_ok profiles_policies SELECT d c row
                          \<and> using_ok profiles_policies UPDATE d c row)
             (set_profile p) (profiles d) = Some marked
      \<and> list_all profile_checks (map snd (filter fst marked))
      \<and> d' = d\<lparr>profiles := map snd marked\<rparr>"
  by (auto simp: update_profiles_def Let_def split: option.splits if_splits)

lemma update_restaurants_Inr:
  "update_restaurants d c wh p = Inr d' \<Longrightarrow> \<exists>tbl. d' = d\<lparr>restaurants := tbl\<rparr>"
  by (auto simp: update_restaurants_def Let_def split: option.splits if_splits)

lemma update_order_items_Inr: "update_order_items d c wh p = Inr d' \<Longrightarrow> d' = d"
proof -
  assume a: "update_order_items d c wh p = Inr d'"
  have "rewrite_rows (\<lambda>row. wh row \<and> using_ok order_items_policies SELECT d c row
                          \<and> using_ok order_items_policies UPDATE d c row)
             (set_order_item p) (order_items d) = Some (map (Pair False) (order_items d))"
    by (rule rewrite_rows_none_targeted) (simp add: order_items_update_using)
  with a show ?thesis
    by (auto simp: update_order_items_def Let_def comp_def split: if_splits)
qed


lemma delete_order_items_nothing: "delete_order_items d c wh = d"
  by (simp add: delete_order_items_def remove_order_items_def order_items_delete_using)



lemma run_Cons: "run d (x # xs) = run (step d x) xs"
  by (simp add: run_def)





lemma rewrite_rows_marked:
  assumes "rewrite_rows tgt f rows = Some marked" "m \<in> set marked"
  shows "fst m \<or> snd m \<in> set rows"
proof -
  from assms(2) obtain i where i: "i < length marked" "marked ! i = m"
    by (auto simp: in_set_conv_nth)
  from rewrite_rows_Some [OF assms(1)] i
  have "i < length rows"
    "if tgt (rows ! i) then fst m \<and> f (rows ! i) = Some (snd m) else m = (False, rows ! i)"
    by (auto simp: list_all2_conv_all_nth)
  then show ?thesis by (cases "tgt (rows ! i)") auto
qed

lemma exec_profiles:
  assumes "exec d c gen rq = Inr d'"
  shows "(\<forall>y \<in> set (profiles d'). y \<in> set (profiles d) \<or> profile_checks y)
       \<and> (\<forall>x \<in> set (profiles d). auth_uid c \<noteq> Some (p_id x) \<longrightarrow> x \<in> set (profiles d'))"
proof (cases rq)
  case (InsertProfile p)
  with assms insert_profiles_Inr [of d c p d'] show ?thesis by auto
next
  case (UpdateProfiles wh p)
  with assms update_profiles_Inr [of d c wh p d'] obtain marked where
    m: "rewrite_rows (\<lambda>row. wh row \<and> using_ok profiles_policies SELECT d c row
                          \<and> using_ok profiles_policies UPDATE d c row)
             (set_profile p) (profiles d) = Some marked"
    and k: "list_all profile_checks (map snd (filter fst marked))"
    and d': "d' = d\<lparr>profiles := map snd marked\<rparr>"
    by auto
  have a: "y \<in> set (profiles d) \<or> profile_checks y" if "y \<in> set (profiles d')" for y
  proof -
    from that d' obtain mk where mk: "mk \<in> set marked" "snd mk = y" by auto
    from rewrite_rows_marked [OF m mk(1)] show ?thesis
    proof
      assume "fst mk"
      with mk(1) have "snd mk \<in> set (map snd (filter fst marked))" by force
      with k have "profile_checks (snd mk)" unfolding list_all_iff by blast
      with mk(2) show ?thesis by simp
    next
      assume "snd mk \<in> set (profiles d)"
      with mk show ?thesis by simp
    qed
  qed
  have b: "x \<in> set (profiles d')" if "x \<in> set (profiles d)" "auth_uid c \<noteq> Some (p_id x)" for x
    using rewrite_rows_kept [OF m that(1)] that(2) d' by (simp add: profiles_update_using)
  from a b show ?thesis by blast
next
  case (DeleteProfiles wh)
  with assms show ?thesis
    by (auto simp: delete_profiles_def remove_profiles_frame profiles_delete_using)
next
  case (InsertRestaurant p)
  with assms insert_restaurants_Inr [of d c "gen 0" p d'] show ?thesis by auto
next
  case (UpdateRestaurants wh p)
  with assms update_restaurants_Inr [of d c wh p d'] show ?thesis by auto
next
  case (DeleteRestaurants wh)
  with assms show ?thesis by (auto simp: delete_restaurants_def remove_restaurants_frame)
next
  case (InsertDish p)
  with assms insert_dishes_Inr [of d c "gen 0" p d'] show ?thesis by auto
next
  case (UpdateDishes wh p)
  with assms update_dishes_Inr [of d c wh p d'] show ?thesis by auto
next
  case (DeleteDishes wh)
  with assms show ?thesis by (auto simp: delete_dishes_def remove_dishes_frame)
next
  case (InsertOrder p)
  with assms obtain row where "insert_orders d c (gen 0) p = Inr (row, d')"
    by (cases "insert_orders d c (gen 0) p") auto
  from insert_orders_Inr [OF this] show ?thesis by auto
next
  case (UpdateOrders wh p)
  with assms update_orders_Inr [of d c wh p d'] show ?thesis by auto
next
  case (DeleteOrders wh)
  with assms show ?thesis by (auto simp: delete_orders_def remove_orders_frame)
next
  case (InsertOrderItems ps)
  with assms insert_order_items_Inr [of d c gen 0 ps d'] show ?thesis by auto
next
  case (UpdateOrderItems wh p)
  with assms update_order_items_Inr [of d c wh p d'] show ?thesis by auto
next
  case (DeleteOrderItems wh)
  with assms show ?thesis by (simp add: delete_order_items_nothing)
qed

lemma step_profiles:
  "(\<forall>y \<in> set (profiles (step d (c, gen, rq))). y \<in> set (profiles d) \<or> profile_checks y)
   \<and> (\<forall>x \<in> set (profiles d). auth_uid c \<noteq> Some (p_id x)
         \<longrightarrow> x \<in> set (profiles (step d (c, gen, rq))))"
proof (cases "exec d c gen rq")
  case (Inl e)
  then show ?thesis by simp
next
  case (Inr d')
  with exec_profiles [OF Inr] show ?thesis by simp
qed

lemma run_profiles_kept:
  "x \<in> set (profiles d) \<Longrightarrow>
   (\<And>c gen rq. (c, gen, rq) \<in> set rqs \<Longrightarrow> auth_uid c \<noteq> Some (p_id x)) \<Longrightarrow>
   x \<in> set (profiles (run d rqs))"
proof (induction rqs arbitrary: d)
  case Nil
  then show ?case by (simp add: run_def)
next
  case (Cons r rqs)
  obtain c gen rq where r: "r = (c, gen, rq)" by (cases r)
  have "auth_uid c \<noteq> Some (p_id x)" by (rule Cons.prems(2) [of c gen rq]) (simp add: r)
  with step_profiles [of d c gen rq] Cons.prems(1) r have "x \<in> set (profiles (step d r))"
    by blast
  then have "x \<in> set (profiles (run (step d r) rqs))"
    by (rule Cons.IH) (use Cons.prems(2) in auto)
  then show ?case by (simp add: run_Cons)
qed

lemma run_profiles_checked:
  "list_all profile_checks (profiles d) \<Longrightarrow> list_all profile_checks (profiles (run d rqs))"
proof (induction rqs arbitrary: d)
  case Nil
  then show ?case by (simp add: run_def)
next
  case (Cons r rqs)
  obtain c gen rq where r: "r = (c, gen, rq)" by (cases r)
  from step_profiles [of d c gen rq] Cons.prems r
  have "list_all profile_checks (profiles (step d r))"
    by (auto simp: list_all_iff)
  from Cons.IH [OF this] show ?case by (simp add: run_Cons)
qed

section \<open>Claims about the authorization layer\<close>

text \<open>
  Claim C2. For every restaurant row \<open>R\<close> and every authenticated caller \<open>u\<close>, the select
  policies of \<open>restaurants\<close> let \<open>u\<close> read \<open>R\<close> exactly when \<open>R.is_active = true\<close> or \<open>u\<close> is
  \<open>R.seller_id\<close>. So an inactive restaurant is in no select result of a caller who is not
  its seller, whatever the filter, and is in its seller's result when the filter matches.
\<close>

theorem restaurants_select_policy:
  "(using_ok restaurants_policies SELECT d (Authenticated u) R
      \<longleftrightarrow> r_is_active R = Some True \<or> u = r_seller_id R)
   \<and> (r_is_active R = Some False \<and> u \<noteq> r_seller_id R \<longrightarrow>
        R \<notin> set (select_restaurants d (Authenticated u) wh))
   \<and> (R \<in> set (restaurants d) \<and> wh R \<longrightarrow>
        R \<in> set (select_restaurants d (Authenticated (r_seller_id R)) wh))"
  by (auto simp: restaurants_select_using select_restaurants_def)

theorem restaurants_select_policy_witness:
  "\<not> using_ok restaurants_policies SELECT ex_db (Authenticated ''s1'')
        (ex_restaurant ''r2'' ''s2'' False)
   \<and> using_ok restaurants_policies SELECT ex_db (Authenticated ''s1'')
        (ex_restaurant ''r1'' ''s1'' True)
   \<and> ex_restaurant ''r2'' ''s2'' False
        \<notin> set (select_restaurants ex_db (Authenticated ''s1'') (\<lambda>row. True))
   \<and> ex_restaurant ''r2'' ''s2'' False
        \<in> set (select_restaurants ex_db (Authenticated ''s2'') (\<lambda>row. True))"
  using restaurants_select_policy [of ex_db "''s1''" "ex_restaurant ''r2'' ''s2'' False" "\<lambda>row. True"]
    restaurants_select_policy [of ex_db "''s1''" "ex_restaurant ''r1'' ''s1'' True" "\<lambda>row. True"]
  by (simp add: ex_restaurant_def ex_db_def)

text \<open>
  Claim C3. Let \<open>R\<close> be the parent restaurant of the dish \<open>D\<close> (the row of \<open>restaurants\<close>
  with \<open>id = D.restaurant_id\<close>, unique by the primary key). The select policies of \<open>dishes\<close>
  let an authenticated caller \<open>u\<close> read \<open>D\<close> exactly when \<open>D.is_available\<close> and \<open>R.is_active\<close>
  are both true, or \<open>u\<close> is \<open>R.seller_id\<close>; a caller who does not own \<open>R\<close> reads \<open>D\<close> only
  when both flags are true.
\<close>

theorem dishes_select_policy:
  assumes "distinct (map r_id (restaurants d))"
    and "R \<in> set (restaurants d)"
    and "r_id R = d_restaurant_id D"
  shows "using_ok dishes_policies SELECT d (Authenticated u) D
     \<longleftrightarrow> (d_is_available D = Some True \<and> r_is_active R = Some True) \<or> u = r_seller_id R"
proof -
  have "using_ok dishes_policies SELECT d (Authenticated u) D \<longleftrightarrow>
     (d_is_available D = Some True \<and>
       (\<exists>r \<in> set (restaurants d). r_id r = r_id R \<and> r_is_active r = Some True))
      \<or> (\<exists>r \<in> set (restaurants d). r_id r = r_id R \<and> Some u = Some (r_seller_id r))"
    by (simp add: dishes_select_using owns_restaurant_iff assms(3))
  also have "\<dots> \<longleftrightarrow> (d_is_available D = Some True \<and> r_is_active R = Some True)
      \<or> u = r_seller_id R"
    by (simp only: parent_restaurant [OF assms(1,2)] option.inject)
  finally show ?thesis .
qed

theorem dishes_select_policy_witness:
  "using_ok dishes_policies SELECT ex_db (Authenticated ''c1'') (ex_dish ''d1'' ''r1'' (999 / 100) True)
   \<and> \<not> using_ok dishes_policies SELECT ex_db (Authenticated ''c1'') (ex_dish ''d3'' ''r2'' 3 True)
   \<and> using_ok dishes_policies SELECT ex_db (Authenticated ''s2'') (ex_dish ''d3'' ''r2'' 3 True)"
  using dishes_select_policy [of ex_db "ex_restaurant ''r1'' ''s1'' True"
      "ex_dish ''d1'' ''r1'' (999 / 100) True" "''c1''"]
    dishes_select_policy [of ex_db "ex_restaurant ''r2'' ''s2'' False"
      "ex_dish ''d3'' ''r2'' 3 True" "''c1''"]
    dishes_select_policy [of ex_db "ex_restaurant ''r2'' ''s2'' False"
      "ex_dish ''d3'' ''r2'' 3 True" "''s2''"]
  by (simp add: ex_restaurant_def ex_db_def ex_dish_def)

text \<open>
  Claim C4. Let \<open>R\<close> be the parent restaurant of the order \<open>Od\<close>. The update policies of
  \<open>orders\<close> let an authenticated caller \<open>u\<close> update \<open>Od\<close> exactly when \<open>u\<close> is \<open>Od.customer_id\<close>
  or \<open>u\<close> is \<open>R.seller_id\<close>, and accept the updated row under the same condition. A caller
  without a session is refused, and an update sent by any other caller leaves \<open>Od\<close> in the
  table as it was.
\<close>

theorem orders_update_policy:
  assumes "distinct (map r_id (restaurants d))"
    and "R \<in> set (restaurants d)"
    and "r_id R = o_restaurant_id Od"
  shows "(using_ok orders_policies UPDATE d (Authenticated u) Od
            \<longleftrightarrow> u = o_customer_id Od \<or> u = r_seller_id R)
       \<and> (check_ok orders_policies UPDATE d (Authenticated u) Od
            \<longleftrightarrow> u = o_customer_id Od \<or> u = r_seller_id R)
       \<and> \<not> using_ok orders_policies UPDATE d Anon Od
       \<and> (Od \<in> set (orders d) \<and> u \<noteq> o_customer_id Od \<and> u \<noteq> r_seller_id R
            \<and> update_orders d (Authenticated u) wh p = Inr d' \<longrightarrow> Od \<in> set (orders d'))"
proof -
  have own: "owns_restaurant d (Authenticated u) (o_restaurant_id Od) \<longleftrightarrow> u = r_seller_id R"
    using parent_restaurant [OF assms(1,2), of "\<lambda>r. Some u = Some (r_seller_id r)"]
    by (simp add: owns_restaurant_iff assms(3))
  have u: "using_ok orders_policies UPDATE d (Authenticated u) Od
            \<longleftrightarrow> u = o_customer_id Od \<or> u = r_seller_id R"
    by (simp add: orders_update_using own)
  have c: "check_ok orders_policies UPDATE d (Authenticated u) Od
            \<longleftrightarrow> u = o_customer_id Od \<or> u = r_seller_id R"
    by (simp add: orders_update_check own)
  have a: "\<not> using_ok orders_policies UPDATE d Anon Od"
    by (simp add: using_ok_def)
  have k: "Od \<in> set (orders d')"
    if "Od \<in> set (orders d)" "u \<noteq> o_customer_id Od" "u \<noteq> r_seller_id R"
      "update_orders d (Authenticated u) wh p = Inr d'"
  proof -
    from update_orders_Inr [OF that(4)] obtain marked where
      m: "rewrite_rows (\<lambda>row. wh row \<and> using_ok orders_policies SELECT d (Authenticated u) row
                          \<and> using_ok orders_policies UPDATE d (Authenticated u) row)
             (set_order p) (orders d) = Some marked" and d': "d' = d\<lparr>orders := map snd marked\<rparr>"
      by blast
    from u that(2,3) have "\<not> using_ok orders_policies UPDATE d (Authenticated u) Od" by simp
    with rewrite_rows_kept [OF m that(1)] d' show ?thesis by simp
  qed
  from u c a k show ?thesis by blast
qed

theorem orders_update_policy_witness:
  "using_ok orders_policies UPDATE ex_db_placed (Authenticated ''c1'') ex_order
   \<and> using_ok orders_policies UPDATE ex_db_placed (Authenticated ''s1'') ex_order
   \<and> \<not> using_ok orders_policies UPDATE ex_db_placed (Authenticated ''s2'') ex_order
   \<and> update_orders ex_db_placed (Authenticated ''s2'') (\<lambda>row. True) (set_status ''cancelled'')
       = Inr ex_db_placed
   \<and> ex_order \<in> set (orders ex_db_placed)"
proof -
  have e: "update_orders ex_db_placed (Authenticated ''s2'') (\<lambda>row. True) (set_status ''cancelled'')
       = Inr ex_db_placed"
    by code_simp
  have h: "distinct (map r_id (restaurants ex_db_placed))"
      "ex_restaurant ''r1'' ''s1'' True \<in> set (restaurants ex_db_placed)"
      "r_id (ex_restaurant ''r1'' ''s1'' True) = o_restaurant_id ex_order"
    by (simp_all add: ex_db_placed_def ex_db_def ex_restaurant_def ex_order_def)
  have m: "ex_order \<in> set (orders ex_db_placed)"
    by (simp add: ex_db_placed_def)
  show ?thesis
    using m orders_update_policy [OF h, of "''c1''" "\<lambda>row. True" "set_status ''cancelled''" ex_db_placed]
      orders_update_policy [OF h, of "''s1''" "\<lambda>row. True" "set_status ''cancelled''" ex_db_placed]
      orders_update_policy [OF h, of "''s2''" "\<lambda>row. True" "set_status ''cancelled''" ex_db_placed]
      e
    by (simp add: ex_restaurant_def ex_order_def)
qed

section \<open>Claims about the client\<close>

text \<open>
  Claim C8. After every sequence of \<open>addToCart\<close> and \<open>updateCartItem\<close> from the empty cart,
  the cart has at most one entry per dish id. \<open>addToCart\<close> of a dish that is present leaves
  the list of entries as it is and adds 1 to that entry's quantity; \<open>updateCartItem\<close> with
  quantity 0 removes the dish's entry; with a positive quantity it keeps every entry in
  place, sets that dish's quantity and leaves the other quantities alone.
\<close>

theorem cart_one_entry_per_dish:
  "distinct (dish_ids (cart_run acts))
   \<and> (d_id d \<in> set (dish_ids cartItems) \<longrightarrow>
        dish_ids (addToCart cartItems d r) = dish_ids cartItems
        \<and> quantity_of (addToCart cartItems d r) (d_id d)
            = map_option (\<lambda>n. n + 1) (quantity_of cartItems (d_id d)))
   \<and> updateCartItem cartItems dishId 0 = filter (\<lambda>item. d_id (dish item) \<noteq> dishId) cartItems
   \<and> dishId \<notin> set (dish_ids (updateCartItem cartItems dishId 0))
   \<and> (0 < q \<longrightarrow>
        dish_ids (updateCartItem cartItems dishId q) = dish_ids cartItems
        \<and> quantity_of (updateCartItem cartItems dishId q) dishId
            = map_option (\<lambda>_. q) (quantity_of cartItems dishId)
        \<and> (\<forall>k. k \<noteq> dishId \<longrightarrow>
              quantity_of (updateCartItem cartItems dishId q) k = quantity_of cartItems k))"
proof -
  have inv: "distinct (dish_ids (cart_run acts))"
    unfolding cart_run_def by (rule distinct_foldl_cart_step) (simp add: dish_ids_def)
  have add: "dish_ids (addToCart cartItems d r) = dish_ids cartItems
        \<and> quantity_of (addToCart cartItems d r) (d_id d)
            = map_option (\<lambda>n. n + 1) (quantity_of cartItems (d_id d))"
    if p: "d_id d \<in> set (dish_ids cartItems)"
  proof -
    from p obtain n where n: "quantity_of cartItems (d_id d) = Some n"
      by (cases "find (\<lambda>item. d_id (dish item) = d_id d) cartItems")
         (auto simp: quantity_of_def dish_ids_def find_None_iff)
    show ?thesis
      using p n by (simp add: dish_ids_addToCart_present quantity_of_addToCart_present)
  qed
  have zero: "dishId \<notin> set (dish_ids (updateCartItem cartItems dishId 0))"
    by (simp add: dish_ids_updateCartItem_zero)
  have pos: "dish_ids (updateCartItem cartItems dishId q) = dish_ids cartItems
        \<and> quantity_of (updateCartItem cartItems dishId q) dishId
            = map_option (\<lambda>_. q) (quantity_of cartItems dishId)
        \<and> (\<forall>k. k \<noteq> dishId \<longrightarrow>
              quantity_of (updateCartItem cartItems dishId q) k = quantity_of cartItems k)"
    if "0 < q"
    using that by (simp add: dish_ids_updateCartItem_nonzero quantity_of_updateCartItem
        quantity_of_updateCartItem_other)
  show ?thesis
    using inv add zero pos by (simp add: updateCartItem_def)
qed

theorem cart_one_entry_per_dish_witness:
  "dish_ids (cart_run [AddToCart (ex_dish ''d1'' ''r1'' 5 True) (ex_restaurant ''r1'' ''s1'' True),
                       AddToCart (ex_dish ''d2'' ''r1'' 7 True) (ex_restaurant ''r1'' ''s1'' True),
                       AddToCart (ex_dish ''d1'' ''r1'' 5 True) (ex_restaurant ''r1'' ''s1'' True),
                       UpdateCartItem ''d2'' 0]) = [''d1'']
   \<and> distinct (dish_ids (cart_run
                      [AddToCart (ex_dish ''d1'' ''r1'' 5 True) (ex_restaurant ''r1'' ''s1'' True),
                       AddToCart (ex_dish ''d2'' ''r1'' 7 True) (ex_restaurant ''r1'' ''s1'' True),
                       AddToCart (ex_dish ''d1'' ''r1'' 5 True) (ex_restaurant ''r1'' ''s1'' True),
                       UpdateCartItem ''d2'' 0]))
   \<and> quantity_of (addToCart (cart_run [AddToCart (ex_dish ''d1'' ''r1'' 5 True)
                                          (ex_restaurant ''r1'' ''s1'' True)])
                    (ex_dish ''d1'' ''r1'' 5 True) (ex_restaurant ''r1'' ''s1'' True)) ''d1'' = Some 2
   \<and> quantity_of (updateCartItem (cart_run [AddToCart (ex_dish ''d1'' ''r1'' 5 True)
                                          (ex_restaurant ''r1'' ''s1'' True)]) ''d1'' 4) ''d1'' = Some 4"
  using cart_one_entry_per_dish [of
      "[AddToCart (ex_dish ''d1'' ''r1'' 5 True) (ex_restaurant ''r1'' ''s1'' True),
        AddToCart (ex_dish ''d2'' ''r1'' 7 True) (ex_restaurant ''r1'' ''s1'' True),
        AddToCart (ex_dish ''d1'' ''r1'' 5 True) (ex_restaurant ''r1'' ''s1'' True),
        UpdateCartItem ''d2'' 0]"
      "ex_dish ''d1'' ''r1'' 5 True"
      "cart_run [AddToCart (ex_dish ''d1'' ''r1'' 5 True) (ex_restaurant ''r1'' ''s1'' True)]"
      "ex_restaurant ''r1'' ''s1'' True" "''d1''" 4]
  by (simp add: cart_run_def addToCart_def updateCartItem_def dish_ids_def quantity_of_def
      ex_dish_def ex_restaurant_def)




text \<open>
  Claim C10. For a non-empty cart, a placed order has the \<open>restaurant_id\<close> of the first
  cart item's restaurant, and every cart item becomes an order item of that one order,
  whatever restaurants the later items belong to (the example places a cart with dishes of
  two restaurants).
\<close>

theorem order_takes_first_items_restaurant:
  assumes "handlePlaceOrder d c gen_order gen_items profile (item # rest) deliveryAddress notes
             = (Placed, d')"
  shows "\<exists>ordr rows. orders d' = orders d @ [ordr]
     \<and> o_restaurant_id ordr = r_id (restaurant item)
     \<and> order_items d' = order_items d @ rows
     \<and> map oi_dish_id rows = map (\<lambda>it. d_id (dish it)) (item # rest)
     \<and> map oi_order_id rows = replicate (length (item # rest)) (o_id ordr)"
proof -
  from handlePlaceOrder_Placed [OF assms] obtain ordr where
    n: "new_order gen_order (order_body profile (item # rest) deliveryAddress notes) = Some ordr"
    and d': "d' = d\<lparr>orders := orders d @ [ordr],
              order_items := order_items d @
                 map (\<lambda>(i, it). \<lparr>oi_id = gen_items i, oi_order_id = o_id ordr,
                        oi_dish_id = d_id (dish it), oi_quantity = quantity it,
                        oi_price = d_price (dish it)\<rparr>) (enumerate 0 (item # rest))\<rparr>"
    by blast
  let ?rows = "map (\<lambda>(i, it). \<lparr>oi_id = gen_items i, oi_order_id = o_id ordr,
                        oi_dish_id = d_id (dish it), oi_quantity = quantity it,
                        oi_price = d_price (dish it)\<rparr>) (enumerate 0 (item # rest))"
  have r: "o_restaurant_id ordr = r_id (restaurant item)"
    using new_order_order_body [OF n] by simp
  have m: "map oi_dish_id (map (\<lambda>(i, it). \<lparr>oi_id = gen_items i, oi_order_id = k,
                        oi_dish_id = d_id (dish it), oi_quantity = quantity it,
                        oi_price = d_price (dish it)\<rparr>) (enumerate j xs))
           = map (\<lambda>it. d_id (dish it)) xs" for j k xs
    by (induction xs arbitrary: j) simp_all
  have q: "map oi_order_id (map (\<lambda>(i, it). \<lparr>oi_id = gen_items i, oi_order_id = k,
                        oi_dish_id = d_id (dish it), oi_quantity = quantity it,
                        oi_price = d_price (dish it)\<rparr>) (enumerate j xs))
           = replicate (length xs) k" for j k xs
    by (induction xs arbitrary: j) simp_all
  have "orders d' = orders d @ [ordr]" "order_items d' = order_items d @ ?rows"
    using d' by simp_all
  with r m [of "o_id ordr" 0 "item # rest"] q [of "o_id ordr" 0 "item # rest"]
  show ?thesis by blast
qed

theorem order_takes_first_items_restaurant_witness:
  "map (\<lambda>it. r_id (restaurant it)) ex_cart_mixed = [''r1'', ''r2'']
   \<and> handlePlaceOrder ex_db (Authenticated ''c1'') ''o1'' ex_gen
         (Some (ex_profile ''c1'' ''customer'')) ex_cart_mixed ''12 Main St'' []
       = (Placed, ex_db_placed_mixed)
   \<and> map o_restaurant_id (orders ex_db_placed_mixed) = [''r1'']
   \<and> map oi_order_id (order_items ex_db_placed_mixed) = [''o1'', ''o1'']
   \<and> map oi_dish_id (order_items ex_db_placed_mixed) = [''d1'', ''d3'']"
proof -
  have c: "ex_item (ex_dish ''d1'' ''r1'' (999 / 100) True) (ex_restaurant ''r1'' ''s1'' True) 1
             # tl ex_cart_mixed = ex_cart_mixed"
    by (simp add: ex_cart_mixed_def)
  have r: "map (\<lambda>it. r_id (restaurant it)) ex_cart_mixed = [''r1'', ''r2'']"
    by (simp add: ex_cart_mixed_def ex_item_def ex_restaurant_def)
  from order_takes_first_items_restaurant [OF ex_placed_mixed]
  obtain ordr rows where
    o: "orders ex_db_placed_mixed = orders ex_db @ [ordr]"
      "o_restaurant_id ordr = r_id (restaurant (ex_item (ex_dish ''d1'' ''r1'' (999 / 100) True)
                             (ex_restaurant ''r1'' ''s1'' True) 1))"
      "order_items ex_db_placed_mixed = order_items ex_db @ rows"
      "map oi_order_id rows = replicate (length (ex_item (ex_dish ''d1'' ''r1'' (999 / 100) True)
           (ex_restaurant ''r1'' ''s1'' True) 1 # tl ex_cart_mixed)) (o_id ordr)"
    by blast
  from o(1,2) have a: "map o_restaurant_id (orders ex_db_placed_mixed) = [''r1'']"
    by (simp add: ex_db_def ex_item_def ex_restaurant_def)
  have b: "map oi_order_id (order_items ex_db_placed_mixed) = [''o1'', ''o1'']"
      "map oi_dish_id (order_items ex_db_placed_mixed) = [''d1'', ''d3'']"
    by (simp_all add: ex_db_placed_mixed_def)
  from r a b ex_placed_mixed [unfolded c] show ?thesis by simp
qed

text \<open>
  Claim C7. There is an execution of \<open>handlePlaceOrder\<close> in which the order insert is
  accepted and the order-items insert is rejected; it ends with the new order committed and
  no order item referring to it. In general, whenever the second insert is rejected the
  final database is the one after the first insert: the order stays, nothing removes it,
  and, when every existing order item refers to an existing order, it has no items.
\<close>

theorem orphaned_order_possible:
  "(\<exists>d c gen_order gen_items profile items deliveryAddress notes e d' ordr.
      handlePlaceOrder d c gen_order gen_items profile items deliveryAddress notes
        = (ItemsRejected e, d')
      \<and> orders d' = orders d @ [ordr]
      \<and> filter (\<lambda>row. oi_order_id row = o_id ordr) (order_items d') = [])
   \<and> (handlePlaceOrder d c gen_order gen_items profile items deliveryAddress notes
         = (ItemsRejected e, d') \<longrightarrow>
       (\<exists>ordr. d' = d\<lparr>orders := orders d @ [ordr]\<rparr>
          \<and> o_id ordr \<notin> set (map o_id (orders d))
          \<and> o_total_amount ordr = total items
          \<and> (list_all (\<lambda>row. oi_order_id row \<in> set (map o_id (orders d))) (order_items d)
               \<longrightarrow> filter (\<lambda>row. oi_order_id row = o_id ordr) (order_items d') = [])))"
proof (rule conjI)
  have "orders ((handleDeleteDish ex_db (Authenticated ''s1'') True ''d2'')\<lparr>orders := [ex_order]\<rparr>)
          = orders (handleDeleteDish ex_db (Authenticated ''s1'') True ''d2'') @ [ex_order]"
    by code_simp
  moreover have "filter (\<lambda>row. oi_order_id row = o_id ex_order)
      (order_items ((handleDeleteDish ex_db (Authenticated ''s1'') True ''d2'')\<lparr>orders := [ex_order]\<rparr>))
        = []"
    by code_simp
  ultimately show "\<exists>d c gen_order gen_items profile items deliveryAddress notes e d' ordr.
      handlePlaceOrder d c gen_order gen_items profile items deliveryAddress notes
        = (ItemsRejected e, d')
      \<and> orders d' = orders d @ [ordr]
      \<and> filter (\<lambda>row. oi_order_id row = o_id ordr) (order_items d') = []"
    using ex_orphan by blast
next
  show "handlePlaceOrder d c gen_order gen_items profile items deliveryAddress notes
         = (ItemsRejected e, d') \<longrightarrow>
       (\<exists>ordr. d' = d\<lparr>orders := orders d @ [ordr]\<rparr>
          \<and> o_id ordr \<notin> set (map o_id (orders d))
          \<and> o_total_amount ordr = total items
          \<and> (list_all (\<lambda>row. oi_order_id row \<in> set (map o_id (orders d))) (order_items d)
               \<longrightarrow> filter (\<lambda>row. oi_order_id row = o_id ordr) (order_items d') = []))"
  proof
    assume a: "handlePlaceOrder d c gen_order gen_items profile items deliveryAddress notes
         = (ItemsRejected e, d')"
    from handlePlaceOrder_ItemsRejected [OF a] obtain ordr where
      n: "new_order gen_order (order_body profile items deliveryAddress notes) = Some ordr"
      and f: "o_id ordr \<notin> set (map o_id (orders d))"
      and d': "d' = d\<lparr>orders := orders d @ [ordr]\<rparr>"
      by blast
    have t: "o_total_amount ordr = total items"
      using new_order_order_body [OF n] by simp
    have z: "filter (\<lambda>row. oi_order_id row = o_id ordr) (order_items d') = []"
      if fk: "list_all (\<lambda>row. oi_order_id row \<in> set (map o_id (orders d))) (order_items d)"
    proof -
      have "oi_order_id row \<noteq> o_id ordr" if r: "row \<in> set (order_items d)" for row
      proof
        assume "oi_order_id row = o_id ordr"
        moreover from fk r have "oi_order_id row \<in> set (map o_id (orders d))"
          by (simp add: list_all_iff)
        ultimately show False using f by simp
      qed
      then show ?thesis by (simp add: filter_empty_conv d')
    qed
    from d' f t z show "\<exists>ordr. d' = d\<lparr>orders := orders d @ [ordr]\<rparr>
          \<and> o_id ordr \<notin> set (map o_id (orders d))
          \<and> o_total_amount ordr = total items
          \<and> (list_all (\<lambda>row. oi_order_id row \<in> set (map o_id (orders d))) (order_items d)
               \<longrightarrow> filter (\<lambda>row. oi_order_id row = o_id ordr) (order_items d') = [])"
      by blast
  qed
qed

theorem orphaned_order_possible_witness:
  "handlePlaceOrder (handleDeleteDish ex_db (Authenticated ''s1'') True ''d2'') (Authenticated ''c1'')
       ''o1'' ex_gen (Some (ex_profile ''c1'' ''customer'')) ex_cart ''12 Main St'' []
   = (ItemsRejected ForeignKeyViolation,
      (handleDeleteDish ex_db (Authenticated ''s1'') True ''d2'')\<lparr>orders := [ex_order]\<rparr>)
   \<and> orders ((handleDeleteDish ex_db (Authenticated ''s1'') True ''d2'')\<lparr>orders := [ex_order]\<rparr>)
       = [ex_order]
   \<and> order_items ((handleDeleteDish ex_db (Authenticated ''s1'') True ''d2'')\<lparr>orders := [ex_order]\<rparr>)
       = []"
proof -
  have "order_items ((handleDeleteDish ex_db (Authenticated ''s1'') True ''d2'')\<lparr>orders := [ex_order]\<rparr>)
       = []"
    by code_simp
  with orphaned_order_possible [of "handleDeleteDish ex_db (Authenticated ''s1'') True ''d2''"
      "Authenticated ''c1''" "''o1''" ex_gen "Some (ex_profile ''c1'' ''customer'')" ex_cart
      "''12 Main St''" "[]" ForeignKeyViolation
      "(handleDeleteDish ex_db (Authenticated ''s1'') True ''d2'')\<lparr>orders := [ex_order]\<rparr>"]
    ex_orphan
  show ?thesis by simp
qed

text \<open>
  Claim C9. The body of a dish edit does not name \<open>is_available\<close>. When the edit is accepted,
  the other four tables are as before and \<open>dishes\<close> has the same rows in the same places:
  every row keeps its \<open>id\<close> and its \<open>is_available\<close>, a row whose id is not the edited
  dish's is unchanged, and a changed row differs from the old one only in \<open>restaurant_id\<close>,
  \<open>name\<close>, \<open>description\<close>, \<open>price\<close>, \<open>image_url\<close> and \<open>category\<close>. (A rejected edit changes
  nothing.)
\<close>

theorem dish_edit_keeps_is_available:
  "dp_is_available (dishData parseFloat rest form) = Absent
   \<and> (handleSubmit d c gen parseFloat rest (Some dsh) form = Inr d' \<longrightarrow>
        profiles d' = profiles d \<and> restaurants d' = restaurants d
        \<and> orders d' = orders d \<and> order_items d' = order_items d
        \<and> list_all2
            (\<lambda>old new. d_id new = d_id old \<and> d_is_available new = d_is_available old
               \<and> (d_id old \<noteq> d_id dsh \<longrightarrow> new = old)
               \<and> (new = old \<or>
                   (\<exists>v. parseFloat (form_price form) = Some v \<and>
                      new = old\<lparr>d_restaurant_id := r_id rest, d_name := form_name form,
                               d_description := Some (form_description form), d_price := v,
                               d_image_url := Some (form_imageUrl form),
                               d_category := Some (form_category form)\<rparr>)))
            (dishes d) (dishes d'))"
proof (intro conjI impI)
  show "dp_is_available (dishData parseFloat rest form) = Absent"
    by (simp add: dishData_def)
next
  assume a: "handleSubmit d c gen parseFloat rest (Some dsh) form = Inr d'"
  let ?tgt = "\<lambda>row. d_id row = d_id dsh \<and> using_ok dishes_policies SELECT d c row
                          \<and> using_ok dishes_policies UPDATE d c row"
  let ?f = "set_dish (dishData parseFloat rest form)"
  from a have "update_dishes d c (\<lambda>row. d_id row = d_id dsh) (dishData parseFloat rest form) = Inr d'"
    by (simp add: handleSubmit_def dish_eq_id_def)
  from update_dishes_Inr [OF this] obtain marked where
    m: "rewrite_rows ?tgt ?f (dishes d) = Some marked" and d': "d' = d\<lparr>dishes := map snd marked\<rparr>"
    by blast
  from d' show "profiles d' = profiles d" "restaurants d' = restaurants d"
    "orders d' = orders d" "order_items d' = order_items d"
    by simp_all
  have "list_all2 (\<lambda>old m. d_id (snd m) = d_id old \<and> d_is_available (snd m) = d_is_available old
               \<and> (d_id old \<noteq> d_id dsh \<longrightarrow> snd m = old)
               \<and> (snd m = old \<or>
                   (\<exists>v. parseFloat (form_price form) = Some v \<and>
                      snd m = old\<lparr>d_restaurant_id := r_id rest, d_name := form_name form,
                               d_description := Some (form_description form), d_price := v,
                               d_image_url := Some (form_imageUrl form),
                               d_category := Some (form_category form)\<rparr>)))
          (dishes d) marked"
  proof (rule list_all2_mono [OF rewrite_rows_Some [OF m]])
    fix old mk
    assume h: "if ?tgt old then fst mk \<and> ?f old = Some (snd mk) else mk = (False, old)"
    show "d_id (snd mk) = d_id old \<and> d_is_available (snd mk) = d_is_available old
               \<and> (d_id old \<noteq> d_id dsh \<longrightarrow> snd mk = old)
               \<and> (snd mk = old \<or>
                   (\<exists>v. parseFloat (form_price form) = Some v \<and>
                      snd mk = old\<lparr>d_restaurant_id := r_id rest, d_name := form_name form,
                               d_description := Some (form_description form), d_price := v,
                               d_image_url := Some (form_imageUrl form),
                               d_category := Some (form_category form)\<rparr>))"
    proof (cases "?tgt old")
      case True
      with h have "?f old = Some (snd mk)" by simp
      from set_dish_dishData [OF this] True show ?thesis by auto
    next
      case False
      with h have "snd mk = old" by simp
      then show ?thesis by simp
    qed
  qed
  then show "list_all2
            (\<lambda>old new. d_id new = d_id old \<and> d_is_available new = d_is_available old
               \<and> (d_id old \<noteq> d_id dsh \<longrightarrow> new = old)
               \<and> (new = old \<or>
                   (\<exists>v. parseFloat (form_price form) = Some v \<and>
                      new = old\<lparr>d_restaurant_id := r_id rest, d_name := form_name form,
                               d_description := Some (form_description form), d_price := v,
                               d_image_url := Some (form_imageUrl form),
                               d_category := Some (form_category form)\<rparr>)))
            (dishes d) (dishes d')"
    by (simp add: d' list_all2_map2)
qed

theorem dish_edit_keeps_is_available_witness:
  "handleSubmit ex_db (Authenticated ''s1'') ''g'' ex_parseFloat (ex_restaurant ''r1'' ''s1'' True)
     (Some (ex_dish ''d1'' ''r1'' (999 / 100) True)) ex_form
   = Inr (ex_db\<lparr>dishes := [ex_edited, ex_dish ''d2'' ''r1'' 5 True, ex_dish ''d3'' ''r2'' 3 True]\<rparr>)
   \<and> map d_is_available (dishes ex_db) = [Some True, Some True, Some True]
   \<and> list_all2 (\<lambda>old new. d_is_available new = d_is_available old) (dishes ex_db)
        [ex_edited, ex_dish ''d2'' ''r1'' 5 True, ex_dish ''d3'' ''r2'' 3 True]
   \<and> map d_price [ex_edited, ex_dish ''d2'' ''r1'' 5 True, ex_dish ''d3'' ''r2'' 3 True] = [12, 5, 3]"
proof -
  from dish_edit_keeps_is_available [of ex_parseFloat "ex_restaurant ''r1'' ''s1'' True" ex_form
      ex_db "Authenticated ''s1''" "''g''" "ex_dish ''d1'' ''r1'' (999 / 100) True"
      "ex_db\<lparr>dishes := [ex_edited, ex_dish ''d2'' ''r1'' 5 True, ex_dish ''d3'' ''r2'' 3 True]\<rparr>"]
    ex_edit
  have "list_all2 (\<lambda>old new. d_is_available new = d_is_available old) (dishes ex_db)
        [ex_edited, ex_dish ''d2'' ''r1'' 5 True, ex_dish ''d3'' ''r2'' 3 True]"
    by (simp add: ex_db_def)
  moreover have "map d_is_available (dishes ex_db) = [Some True, Some True, Some True]"
    "map d_price [ex_edited, ex_dish ''d2'' ''r1'' 5 True, ex_dish ''d3'' ''r2'' 3 True] = [12, 5, 3]"
    by (simp_all add: ex_db_def ex_dish_def ex_edited_def)
  ultimately show ?thesis using ex_edit by simp
qed

section \<open>Claims about sequences of requests\<close>




text \<open>
  Claim C6, as stated, fails: the update policy of \<open>profiles\<close> only asks that the row is the
  caller's own, before and after, and the check constraint accepts both roles. The customer
  \<open>c1\<close> updates their own profile and becomes a seller.
\<close>

theorem role_changed_by_owner:
  "map p_id (profiles ex_db) = [''s1'', ''s2'', ''c1'']
   \<and> map p_user_type (profiles ex_db) = [''seller'', ''seller'', ''customer'']
   \<and> map p_id (profiles (run ex_db [(Authenticated ''c1'', ex_gen,
         UpdateProfiles (profile_eq_id ''c1'') (set_user_type ''seller''))]))
       = [''s1'', ''s2'', ''c1'']
   \<and> map p_user_type (profiles (run ex_db [(Authenticated ''c1'', ex_gen,
         UpdateProfiles (profile_eq_id ''c1'') (set_user_type ''seller''))]))
       = [''seller'', ''seller'', ''seller'']"
  by code_simp

text \<open>
  Claim C6, amended. A profile's role can be changed by the profile's owner only: through
  every sequence of requests sent by other callers the row stays in \<open>profiles\<close> exactly as
  it was, role included. Whoever sends the requests, the role of every profile stays one of
  \<open>customer\<close> and \<open>seller\<close>.
\<close>

theorem role_changed_only_by_owner:
  "(x \<in> set (profiles d) \<and> (\<forall>(c, gen, rq) \<in> set rqs. auth_uid c \<noteq> Some (p_id x))
      \<longrightarrow> x \<in> set (profiles (run d rqs)))
   \<and> (list_all profile_checks (profiles d) \<longrightarrow> list_all profile_checks (profiles (run d rqs)))"
proof (intro conjI impI)
  assume a: "x \<in> set (profiles d) \<and> (\<forall>(c, gen, rq) \<in> set rqs. auth_uid c \<noteq> Some (p_id x))"
  show "x \<in> set (profiles (run d rqs))"
    by (rule run_profiles_kept) (use a in auto)
next
  assume "list_all profile_checks (profiles d)"
  then show "list_all profile_checks (profiles (run d rqs))" by (rule run_profiles_checked)
qed

theorem role_changed_only_by_owner_witness:
  "ex_profile ''c1'' ''customer'' \<in> set (profiles (run ex_db
      [(Authenticated ''s1'', ex_gen,
          UpdateProfiles (profile_eq_id ''c1'') (set_user_type ''seller'')),
       (Authenticated ''s1'', ex_gen, DeleteProfiles (profile_eq_id ''c1''))]))
   \<and> list_all profile_checks (profiles (run ex_db
      [(Authenticated ''s1'', ex_gen,
          UpdateProfiles (profile_eq_id ''c1'') (set_user_type ''seller'')),
       (Authenticated ''s1'', ex_gen, DeleteProfiles (profile_eq_id ''c1''))]))"
proof -
  have h: "ex_profile ''c1'' ''customer'' \<in> set (profiles ex_db)
     \<and> (\<forall>(c, gen, rq) \<in> set [(Authenticated ''s1'', ex_gen,
          UpdateProfiles (profile_eq_id ''c1'') (set_user_type ''seller'')),
       (Authenticated ''s1'', ex_gen, DeleteProfiles (profile_eq_id ''c1''))].
          auth_uid c \<noteq> Some (p_id (ex_profile ''c1'' ''customer'')))"
    by (simp add: ex_db_def ex_profile_def)
  have k: "list_all profile_checks (profiles ex_db)"
    by (simp add: ex_db_def ex_profile_def profile_checks_def)
  from role_changed_only_by_owner [of "ex_profile ''c1'' ''customer''" ex_db
      "[(Authenticated ''s1'', ex_gen,
          UpdateProfiles (profile_eq_id ''c1'') (set_user_type ''seller'')),
       (Authenticated ''s1'', ex_gen, DeleteProfiles (profile_eq_id ''c1''))]"] h k
  show ?thesis by blast
qed

end
